theory Spec2Isabelle
  imports Main "HOL-Library.Word" "HOL-Library.Monad_Syntax"
begin

unbundle bit_operations_syntax

section \<open>Machine types and the constants of the missing headers\<close>

type_synonym addr = nat
type_synonym byte = "8 word"
type_synonym word16 = "16 word"
type_synonym dword = "32 word"
type_synonym qword = "64 word"

text \<open>
  A call of the modelled code returns \<open>Some\<close> of its result and of the new state when it
  returns normally.  \<open>None\<close> stands for a call that does not return: a loop that runs
  forever, or a dereference of \<open>NULL\<close> or of freed memory.
\<close>

datatype tbl_tag = VMM_CACHE_TAG_PHYS | VMM_CACHE_TAG_TLB | VMM_CACHE_TAG_PAGING | OB_TAG_OTHER

text \<open>
  The descriptor of leechcore.h.  \<open>m_pb\<close> is the content of the buffer the descriptor
  points to, \<open>m_vStack\<close> the small stack, its top first.
\<close>

record MEM_SCATTER =
  m_f :: bool
  m_qwA :: qword
  m_pb :: "byte list"
  m_cb :: dword
  m_vStack :: "qword list"

text \<open>
  Constants, macros and external collaborators that vmm.c takes from headers and modules
  outside src/: they are parameters of the model.  \<open>ctx_flags\<close> is \<open>ctxVmm->flags\<close>,
  \<open>dev_paMax\<close> is \<open>ctxMain->dev.paMax\<close>.  \<open>lc_read\<close> and \<open>lc_write\<close> say what the
  transport does with one descriptor; \<open>oom n\<close> says that allocation number \<open>n\<close> fails.
  \<open>VmmVirt2Phys cfg p va pa\<close> is the result of the translation and the new value of
  \<open>*pqwPA\<close>, which was \<open>pa\<close>; \<open>pfnPagedRead\<close> is \<open>NULL\<close> or the decoder, which takes the
  process, the virtual address, the entry, the page buffer (or \<open>NULL\<close>), the old value of
  \<open>*ppaPaged\<close> and the flags, and gives its result, the buffer and the new \<open>*ppaPaged\<close>.
  The region and bucket counts are positive.  What the memory model itself does with the
  cache of page tables is outside the model.
\<close>

record vmm_config =
  VMM_CACHE2_REGIONS :: nat
  VMM_CACHE2_BUCKETS :: nat
  VMM_CACHE2_MAX_ENTRIES :: dword
  MEM_SCATTER_ADDR_INVALID :: qword
  VMM_FLAG_NOCACHE :: qword
  VMM_FLAG_NOCACHEPUT :: qword
  VMM_FLAG_FORCECACHE_READ :: qword
  VMM_FLAG_ZEROPAD_ON_FAIL :: qword
  VMM_FLAG_NOPAGING :: qword
  VMM_FLAG_ALTADDR_VA_PTE :: qword
  ctx_flags :: qword
  dev_paMax :: qword
  lc_read :: "MEM_SCATTER \<Rightarrow> byte list option"
  lc_write :: "MEM_SCATTER \<Rightarrow> bool"
  oom :: "nat \<Rightarrow> bool"
  VmmVirt2Phys :: "addr \<Rightarrow> qword \<Rightarrow> qword \<Rightarrow> bool \<times> qword"
  pfnPagedRead :: "(addr \<Rightarrow> qword \<Rightarrow> qword \<Rightarrow> byte list option \<Rightarrow> qword \<Rightarrow> qword
                    \<Rightarrow> bool \<times> byte list option \<times> qword) option"

section \<open>The page cache\<close>

record VMMOB_MEM =
  ob_count :: nat
  ob_tag :: tbl_tag
  ob_h :: MEM_SCATTER
  FLink :: "addr option"
  BLink :: "addr option"
  AgeFLink :: "addr option"
  AgeBLink :: "addr option"

record VMM_CACHE_REGION =
  R_B :: "nat \<Rightarrow> addr option"
  R_AgeFLink :: "addr option"
  R_AgeBLink :: "addr option"
  R_c :: dword

record VMM_CACHE_TABLE =
  t_fActive :: bool
  t_R :: "nat \<Rightarrow> VMM_CACHE_REGION"
  t_ListHeadEmpty :: "addr list"
  t_ListHeadTotal :: "addr list"
  t_cTotal :: dword
  t_cEmpty :: dword
  t_iReclaimLast :: word16

record vmm_stat =
  cPhysCacheHit :: qword
  cPhysReadSuccess :: qword
  cPhysReadFail :: qword
  cPhysWrite :: qword

text \<open>
  The part of \<open>ctxVmm\<close> and of the process heap the memory engine works on: the cache
  objects by address, the three cache tables, the statistics, the batches handed to the
  transport (newest first) and the number of allocations made so far.
\<close>

record vmm_state =
  heap :: "addr \<Rightarrow> VMMOB_MEM option"
  Cache :: "tbl_tag \<Rightarrow> VMM_CACHE_TABLE"
  stat :: vmm_stat
  lc_reads :: "MEM_SCATTER list list"
  lc_writes :: "MEM_SCATTER list list"
  cAlloc :: nat

definition VmmCacheTableGet :: "tbl_tag \<Rightarrow> tbl_tag option" where
  "VmmCacheTableGet wTblTag =
     (case wTblTag of
        VMM_CACHE_TAG_PHYS \<Rightarrow> Some VMM_CACHE_TAG_PHYS
      | VMM_CACHE_TAG_TLB \<Rightarrow> Some VMM_CACHE_TAG_TLB
      | VMM_CACHE_TAG_PAGING \<Rightarrow> Some VMM_CACHE_TAG_PAGING
      | OB_TAG_OTHER \<Rightarrow> None)"

definition VMM_CACHE2_GET_REGION :: "vmm_config \<Rightarrow> qword \<Rightarrow> nat" where
  "VMM_CACHE2_GET_REGION cfg qwA = unat (drop_bit 12 qwA) mod VMM_CACHE2_REGIONS cfg"

definition VMM_CACHE2_GET_BUCKET :: "vmm_config \<Rightarrow> qword \<Rightarrow> nat" where
  "VMM_CACHE2_GET_BUCKET cfg qwA = unat (drop_bit 12 qwA) mod VMM_CACHE2_BUCKETS cfg"

subsection \<open>Reading and writing the store\<close>

definition ob_write :: "addr \<Rightarrow> (VMMOB_MEM \<Rightarrow> VMMOB_MEM) \<Rightarrow> vmm_state \<Rightarrow> vmm_state option" where
  "ob_write x g s =
     (case heap s x of
        None \<Rightarrow> None
      | Some ob \<Rightarrow> Some (s\<lparr>heap := (heap s)(x := Some (g ob))\<rparr>))"

definition ob_write_opt :: "addr option \<Rightarrow> (VMMOB_MEM \<Rightarrow> VMMOB_MEM) \<Rightarrow> vmm_state \<Rightarrow> vmm_state option" where
  "ob_write_opt p g s = (case p of None \<Rightarrow> Some s | Some x \<Rightarrow> ob_write x g s)"

definition upd_table :: "tbl_tag \<Rightarrow> (VMM_CACHE_TABLE \<Rightarrow> VMM_CACHE_TABLE) \<Rightarrow> vmm_state \<Rightarrow> vmm_state" where
  "upd_table t g s = s\<lparr>Cache := (Cache s)(t := g (Cache s t))\<rparr>"

definition upd_region :: "tbl_tag \<Rightarrow> nat \<Rightarrow> (VMM_CACHE_REGION \<Rightarrow> VMM_CACHE_REGION) \<Rightarrow> vmm_state \<Rightarrow> vmm_state" where
  "upd_region t iR g s = upd_table t (\<lambda>tb. tb\<lparr>t_R := (t_R tb)(iR := g (t_R tb iR))\<rparr>) s"

definition region :: "vmm_state \<Rightarrow> tbl_tag \<Rightarrow> nat \<Rightarrow> VMM_CACHE_REGION" where
  "region s t iR = t_R (Cache s t) iR"

subsection \<open>The reference count of a cache object\<close>

definition Ob_INCREF :: "addr option \<Rightarrow> vmm_state \<Rightarrow> vmm_state option" where
  "Ob_INCREF p s = ob_write_opt p (\<lambda>ob. ob\<lparr>ob_count := ob_count ob + 1\<rparr>) s"

definition VmmCache_CallbackRefCount1 :: "addr \<Rightarrow> vmm_state \<Rightarrow> vmm_state option" where
  "VmmCache_CallbackRefCount1 pOb s =
     (case heap s pOb of
        None \<Rightarrow> None
      | Some ob \<Rightarrow>
          (case VmmCacheTableGet (ob_tag ob) of
             None \<Rightarrow> Some s
           | Some t \<Rightarrow>
               if \<not> t_fActive (Cache s t) then Some s
               else
                 (case Ob_INCREF (Some pOb) s of
                    None \<Rightarrow> None
                  | Some s1 \<Rightarrow>
                      Some (upd_table t
                              (\<lambda>tb. tb\<lparr>t_ListHeadEmpty := pOb # t_ListHeadEmpty tb,
                                       t_cEmpty := t_cEmpty tb + 1\<rparr>) s1))))"

text \<open>
  Modelled from the spec: \<open>Ob_DECREF\<close> of ob.c is not under src/.  Section 4.1: the count
  is decremented; when it becomes 0 the block is freed (a cache object has no destructor);
  when it becomes exactly 1 the refcount-reaches-one hook of the object runs, which for a
  cache object is \<open>VmmCache_CallbackRefCount1\<close>.  \<open>Ob_DECREF(NULL)\<close> does nothing.
\<close>

definition Ob_DECREF :: "addr option \<Rightarrow> vmm_state \<Rightarrow> vmm_state option" where
  "Ob_DECREF p s =
     (case p of
        None \<Rightarrow> Some s
      | Some x \<Rightarrow>
          (case heap s x of
             None \<Rightarrow> None
           | Some ob \<Rightarrow>
               let c = ob_count ob - 1 in
               if c = 0 then Some (s\<lparr>heap := (heap s)(x := None)\<rparr>)
               else if c = 1
                 then VmmCache_CallbackRefCount1 x (s\<lparr>heap := (heap s)(x := Some (ob\<lparr>ob_count := c\<rparr>))\<rparr>)
                 else Some (s\<lparr>heap := (heap s)(x := Some (ob\<lparr>ob_count := c\<rparr>))\<rparr>)))"

subsection \<open>VmmCacheInvalidate_2\<close>

text \<open>The body of the \<open>if(pOb->h.qwA == qwA)\<close> branch: one entry leaves both lists.\<close>

definition detach_bucket :: "tbl_tag \<Rightarrow> nat \<Rightarrow> nat \<Rightarrow> addr \<Rightarrow> vmm_state \<Rightarrow> vmm_state option" where
  "detach_bucket t iR iB pOb s = do {
     ob \<leftarrow> heap s pOb;
     s1 \<leftarrow> (case BLink ob of
              Some b \<Rightarrow> ob_write b (\<lambda>e. e\<lparr>FLink := FLink ob\<rparr>) s
            | None \<Rightarrow> Some (upd_region t iR (\<lambda>r. r\<lparr>R_B := (R_B r)(iB := FLink ob)\<rparr>) s));
     ob1 \<leftarrow> heap s1 pOb;
     ob_write_opt (FLink ob1) (\<lambda>e. e\<lparr>BLink := BLink ob1\<rparr>) s1
   }"

definition detach_age :: "tbl_tag \<Rightarrow> nat \<Rightarrow> addr \<Rightarrow> vmm_state \<Rightarrow> vmm_state option" where
  "detach_age t iR pOb s = do {
     ob \<leftarrow> heap s pOb;
     s1 \<leftarrow> (case AgeBLink ob of
              Some b \<Rightarrow> ob_write b (\<lambda>e. e\<lparr>AgeFLink := AgeFLink ob\<rparr>) s
            | None \<Rightarrow> Some (upd_region t iR (\<lambda>r. r\<lparr>R_AgeFLink := AgeFLink ob\<rparr>) s));
     ob1 \<leftarrow> heap s1 pOb;
     (case AgeFLink ob1 of
        Some n \<Rightarrow> ob_write n (\<lambda>e. e\<lparr>AgeBLink := AgeBLink ob1\<rparr>) s1
      | None \<Rightarrow> Some (upd_region t iR (\<lambda>r. r\<lparr>R_AgeBLink := AgeBLink ob1\<rparr>) s1))
   }"

definition VmmCacheInvalidate_2_detach :: "tbl_tag \<Rightarrow> nat \<Rightarrow> nat \<Rightarrow> addr \<Rightarrow> vmm_state \<Rightarrow> vmm_state option" where
  "VmmCacheInvalidate_2_detach t iR iB pOb s = do {
     s1 \<leftarrow> detach_bucket t iR iB pOb s;
     s2 \<leftarrow> detach_age t iR pOb s1;
     Ob_DECREF (Some pOb) (upd_region t iR (\<lambda>r. r\<lparr>R_c := R_c r - 1\<rparr>) s2)
   }"

partial_function (option) VmmCacheInvalidate_2_loop ::
  "tbl_tag \<Rightarrow> nat \<Rightarrow> nat \<Rightarrow> qword \<Rightarrow> addr option \<Rightarrow> vmm_state \<Rightarrow> vmm_state option" where
  "VmmCacheInvalidate_2_loop t iR iB qwA pOb s =
     (case pOb of
        None \<Rightarrow> Some s
      | Some x \<Rightarrow> do {
          ob \<leftarrow> heap s x;
          if m_qwA (ob_h ob) = qwA
          then do {
            s1 \<leftarrow> VmmCacheInvalidate_2_detach t iR iB x s;
            VmmCacheInvalidate_2_loop t iR iB qwA (FLink ob) s1
          }
          else VmmCacheInvalidate_2_loop t iR iB qwA (FLink ob) s
        })"

definition VmmCacheInvalidate_2 :: "vmm_config \<Rightarrow> tbl_tag \<Rightarrow> qword \<Rightarrow> vmm_state \<Rightarrow> vmm_state option" where
  "VmmCacheInvalidate_2 cfg dwTblTag qwA s =
     (case VmmCacheTableGet dwTblTag of
        None \<Rightarrow> Some s
      | Some t \<Rightarrow>
          if \<not> t_fActive (Cache s t) then Some s
          else
            let iR = VMM_CACHE2_GET_REGION cfg qwA;
                iB = VMM_CACHE2_GET_BUCKET cfg qwA
            in VmmCacheInvalidate_2_loop t iR iB qwA (R_B (region s t iR) iB) s)"

definition VmmCacheInvalidate :: "vmm_config \<Rightarrow> qword \<Rightarrow> vmm_state \<Rightarrow> vmm_state option" where
  "VmmCacheInvalidate cfg pa s = do {
     s1 \<leftarrow> VmmCacheInvalidate_2 cfg VMM_CACHE_TAG_TLB pa s;
     VmmCacheInvalidate_2 cfg VMM_CACHE_TAG_PHYS pa s1
   }"

subsection \<open>VmmCacheReclaim\<close>

partial_function (option) VmmCacheReclaim_loop ::
  "vmm_config \<Rightarrow> tbl_tag \<Rightarrow> nat \<Rightarrow> dword \<Rightarrow> vmm_state \<Rightarrow> vmm_state option" where
  "VmmCacheReclaim_loop cfg t iR cThreshold s =
     (if R_c (region s t iR) > cThreshold
      then
        (case R_AgeBLink (region s t iR) of
           None \<Rightarrow> Some s
         | Some pOb \<Rightarrow> do {
             ob \<leftarrow> heap s pOb;
             s1 \<leftarrow> (case AgeBLink ob of
                      Some b \<Rightarrow>
                        ob_write b (\<lambda>e. e\<lparr>AgeFLink := None\<rparr>)
                          (upd_region t iR (\<lambda>r. r\<lparr>R_AgeBLink := AgeBLink ob\<rparr>) s)
                    | None \<Rightarrow>
                        Some (upd_region t iR (\<lambda>r. r\<lparr>R_AgeBLink := None, R_AgeFLink := None\<rparr>) s));
             ob1 \<leftarrow> heap s1 pOb;
             s2 \<leftarrow> (case BLink ob1 of
                      Some b \<Rightarrow> ob_write b (\<lambda>e. e\<lparr>FLink := None\<rparr>) s1
                    | None \<Rightarrow>
                        Some (upd_region t iR
                                (\<lambda>r. r\<lparr>R_B := (R_B r)(VMM_CACHE2_GET_BUCKET cfg (m_qwA (ob_h ob1)) := None)\<rparr>) s1));
             s3 \<leftarrow> Ob_DECREF (Some pOb) s2;
             VmmCacheReclaim_loop cfg t iR cThreshold
               (upd_region t iR (\<lambda>r. r\<lparr>R_c := R_c r - 1\<rparr>) s3)
           })
      else Some s)"

definition VmmCacheReclaim :: "vmm_config \<Rightarrow> tbl_tag \<Rightarrow> nat \<Rightarrow> bool \<Rightarrow> vmm_state \<Rightarrow> vmm_state option" where
  "VmmCacheReclaim cfg t iR fTotal s =
     VmmCacheReclaim_loop cfg t iR
       (if fTotal then 0 else max 0x10 (drop_bit 1 (R_c (region s t iR)))) s"

subsection \<open>VmmCacheReserveReturn, VmmCacheReserve and VmmCacheGet\<close>

definition VmmCacheReserveReturn :: "vmm_config \<Rightarrow> addr option \<Rightarrow> vmm_state \<Rightarrow> vmm_state option" where
  "VmmCacheReserveReturn cfg p s =
     (case p of
        None \<Rightarrow> Some s
      | Some pOb \<Rightarrow> do {
          ob \<leftarrow> heap s pOb;
          (case VmmCacheTableGet (ob_tag ob) of
             None \<Rightarrow> Some s
           | Some t \<Rightarrow>
               if \<not> t_fActive (Cache s t) \<or> \<not> m_f (ob_h ob)
                  \<or> m_qwA (ob_h ob) = MEM_SCATTER_ADDR_INVALID cfg
               then Ob_DECREF (Some pOb) s
               else do {
                 let iR = VMM_CACHE2_GET_REGION cfg (m_qwA (ob_h ob));
                 let iB = VMM_CACHE2_GET_BUCKET cfg (m_qwA (ob_h ob));
                 s1 \<leftarrow> ob_write pOb (\<lambda>e. e\<lparr>BLink := None, FLink := R_B (region s t iR) iB\<rparr>) s;
                 s2 \<leftarrow> ob_write_opt (R_B (region s t iR) iB) (\<lambda>e. e\<lparr>BLink := Some pOb\<rparr>) s1;
                 let s3 = upd_region t iR (\<lambda>r. r\<lparr>R_B := (R_B r)(iB := Some pOb)\<rparr>) s2;
                 s4 \<leftarrow> ob_write pOb (\<lambda>e. e\<lparr>AgeFLink := R_AgeFLink (region s3 t iR)\<rparr>) s3;
                 s5 \<leftarrow> ob_write_opt (R_AgeFLink (region s3 t iR)) (\<lambda>e. e\<lparr>AgeBLink := Some pOb\<rparr>) s4;
                 s6 \<leftarrow> ob_write pOb (\<lambda>e. e\<lparr>AgeBLink := None\<rparr>) s5;
                 let s7 = upd_region t iR (\<lambda>r. r\<lparr>R_AgeFLink := Some pOb\<rparr>) s6;
                 let s8 = (if R_AgeBLink (region s7 t iR) = None
                           then upd_region t iR (\<lambda>r. r\<lparr>R_AgeBLink := Some pOb\<rparr>) s7 else s7);
                 Some (upd_region t iR (\<lambda>r. r\<lparr>R_c := R_c r + 1\<rparr>) s8)
               })
        })"

text \<open>
  \<open>Ob_Alloc\<close> with \<open>LMEM_ZEROINIT\<close> for a cache object: the next free address, every field
  zero, the count 1; no object when the allocation fails.
\<close>

definition Ob_Alloc_MEM :: "vmm_config \<Rightarrow> tbl_tag \<Rightarrow> vmm_state \<Rightarrow> addr option \<times> vmm_state" where
  "Ob_Alloc_MEM cfg tag s =
     (if oom cfg (cAlloc s) then (None, s\<lparr>cAlloc := cAlloc s + 1\<rparr>)
      else (Some (cAlloc s),
            s\<lparr>cAlloc := cAlloc s + 1,
              heap := (heap s)(cAlloc s := Some
                \<lparr>ob_count = 1, ob_tag = tag,
                 ob_h = \<lparr>m_f = False, m_qwA = 0, m_pb = replicate 0x1000 0, m_cb = 0, m_vStack = []\<rparr>,
                 FLink = None, BLink = None, AgeFLink = None, AgeBLink = None\<rparr>)\<rparr>))"

partial_function (option) VmmCacheReserve_loop ::
  "vmm_config \<Rightarrow> tbl_tag \<Rightarrow> vmm_state \<Rightarrow> (addr option \<times> vmm_state) option" where
  "VmmCacheReserve_loop cfg t s =
     (case t_ListHeadEmpty (Cache s t) of
        e # es \<Rightarrow> do {
          let s1 = upd_table t (\<lambda>tb. tb\<lparr>t_ListHeadEmpty := es, t_cEmpty := t_cEmpty tb - 1\<rparr>) s;
          s2 \<leftarrow> ob_write e (\<lambda>ob. ob\<lparr>ob_h := (ob_h ob)\<lparr>m_qwA := MEM_SCATTER_ADDR_INVALID cfg, m_f := False\<rparr>\<rparr>) s1;
          Some (Some e, s2)
        }
      | [] \<Rightarrow>
          if t_cTotal (Cache s t) < VMM_CACHE2_MAX_ENTRIES cfg
          then
            (case Ob_Alloc_MEM cfg t s of
               (None, s1) \<Rightarrow> Some (None, s1)
             | (Some pOb, s1) \<Rightarrow> do {
                 s2 \<leftarrow> ob_write pOb
                        (\<lambda>ob. ob\<lparr>ob_h := (ob_h ob)\<lparr>m_cb := 0x1000, m_qwA := MEM_SCATTER_ADDR_INVALID cfg\<rparr>\<rparr>) s1;
                 s3 \<leftarrow> Ob_INCREF (Some pOb) s2;
                 Some (Some pOb,
                       upd_table t (\<lambda>tb. tb\<lparr>t_ListHeadTotal := pOb # t_ListHeadTotal tb,
                                             t_cTotal := t_cTotal tb + 1\<rparr>) s3)
               })
          else do {
            let iReclaimLast = t_iReclaimLast (Cache s t) + 1;
            let s1 = upd_table t (\<lambda>tb. tb\<lparr>t_iReclaimLast := iReclaimLast\<rparr>) s;
            s2 \<leftarrow> VmmCacheReclaim cfg t (unat iReclaimLast mod VMM_CACHE2_REGIONS cfg) False s1;
            VmmCacheReserve_loop cfg t s2
          })"

definition VmmCacheReserve :: "vmm_config \<Rightarrow> tbl_tag \<Rightarrow> vmm_state \<Rightarrow> (addr option \<times> vmm_state) option" where
  "VmmCacheReserve cfg dwTblTag s =
     (case VmmCacheTableGet dwTblTag of
        None \<Rightarrow> Some (None, s)
      | Some t \<Rightarrow>
          if \<not> t_fActive (Cache s t) then Some (None, s)
          else VmmCacheReserve_loop cfg t s)"

partial_function (option) VmmCacheGet_loop :: "qword \<Rightarrow> addr option \<Rightarrow> vmm_state \<Rightarrow> addr option option" where
  "VmmCacheGet_loop qwA pOb s =
     (case pOb of
        None \<Rightarrow> Some None
      | Some x \<Rightarrow> do {
          ob \<leftarrow> heap s x;
          if qwA \<noteq> m_qwA (ob_h ob) then VmmCacheGet_loop qwA (FLink ob) s else Some (Some x)
        })"

definition VmmCacheGet :: "vmm_config \<Rightarrow> tbl_tag \<Rightarrow> qword \<Rightarrow> vmm_state \<Rightarrow> (addr option \<times> vmm_state) option" where
  "VmmCacheGet cfg dwTblTag qwA s =
     (case VmmCacheTableGet dwTblTag of
        None \<Rightarrow> Some (None, s)
      | Some t \<Rightarrow>
          if \<not> t_fActive (Cache s t) then Some (None, s)
          else do {
            let iR = VMM_CACHE2_GET_REGION cfg qwA;
            pOb \<leftarrow> VmmCacheGet_loop qwA (R_B (region s t iR) (VMM_CACHE2_GET_BUCKET cfg qwA)) s;
            s1 \<leftarrow> Ob_INCREF pOb s;
            Some (pOb, s1)
          })"

subsection \<open>VmmCache2Initialize on the zeroed context\<close>

definition VmmCache2Initialize :: "tbl_tag \<Rightarrow> vmm_state \<Rightarrow> vmm_state" where
  "VmmCache2Initialize dwTblTag s =
     (case VmmCacheTableGet dwTblTag of
        None \<Rightarrow> s
      | Some t \<Rightarrow>
          if t_fActive (Cache s t) then s
          else upd_table t (\<lambda>tb. tb\<lparr>t_ListHeadEmpty := [], t_ListHeadTotal := [], t_fActive := True\<rparr>) s)"

text \<open>The context as \<open>LocalAlloc(LMEM_ZEROINIT, ...)\<close> leaves it: no object, every table zero.\<close>

definition table_zero :: VMM_CACHE_TABLE where
  "table_zero =
     \<lparr>t_fActive = False,
      t_R = (\<lambda>_. \<lparr>R_B = (\<lambda>_. None), R_AgeFLink = None, R_AgeBLink = None, R_c = 0\<rparr>),
      t_ListHeadEmpty = [], t_ListHeadTotal = [], t_cTotal = 0, t_cEmpty = 0, t_iReclaimLast = 0\<rparr>"

definition state_zero :: vmm_state where
  "state_zero =
     \<lparr>heap = (\<lambda>_. None), Cache = (\<lambda>_. table_zero),
      stat = \<lparr>cPhysCacheHit = 0, cPhysReadSuccess = 0, cPhysReadFail = 0, cPhysWrite = 0\<rparr>,
      lc_reads = [], lc_writes = [], cAlloc = 0\<rparr>"

subsection \<open>VmmCache2Close\<close>

fun VmmCache2Close_regions :: "vmm_config \<Rightarrow> tbl_tag \<Rightarrow> nat list \<Rightarrow> vmm_state \<Rightarrow> vmm_state option" where
  "VmmCache2Close_regions cfg t [] s = Some s"
| "VmmCache2Close_regions cfg t (i # is) s = do {
     s1 \<leftarrow> VmmCacheReclaim cfg t i True s;
     VmmCache2Close_regions cfg t is s1
   }"

partial_function (option) VmmCache2Close_empty :: "tbl_tag \<Rightarrow> vmm_state \<Rightarrow> vmm_state option" where
  "VmmCache2Close_empty t s =
     (case t_ListHeadEmpty (Cache s t) of
        [] \<Rightarrow> Some s
      | e # es \<Rightarrow> do {
          s1 \<leftarrow> Ob_DECREF (Some e) (upd_table t (\<lambda>tb. tb\<lparr>t_ListHeadEmpty := es\<rparr>) s);
          VmmCache2Close_empty t (upd_table t (\<lambda>tb. tb\<lparr>t_cEmpty := t_cEmpty tb - 1\<rparr>) s1)
        })"

partial_function (option) VmmCache2Close_total :: "tbl_tag \<Rightarrow> vmm_state \<Rightarrow> vmm_state option" where
  "VmmCache2Close_total t s =
     (case t_ListHeadTotal (Cache s t) of
        [] \<Rightarrow> Some s
      | e # es \<Rightarrow> do {
          s1 \<leftarrow> Ob_DECREF (Some e) (upd_table t (\<lambda>tb. tb\<lparr>t_ListHeadTotal := es\<rparr>) s);
          VmmCache2Close_total t (upd_table t (\<lambda>tb. tb\<lparr>t_cTotal := t_cTotal tb - 1\<rparr>) s1)
        })"

definition VmmCache2Close :: "vmm_config \<Rightarrow> tbl_tag \<Rightarrow> vmm_state \<Rightarrow> vmm_state option" where
  "VmmCache2Close cfg dwTblTag s =
     (case VmmCacheTableGet dwTblTag of
        None \<Rightarrow> Some s
      | Some t \<Rightarrow>
          if \<not> t_fActive (Cache s t) then Some s
          else do {
            s1 \<leftarrow> VmmCache2Close_regions cfg t [0 ..< VMM_CACHE2_REGIONS cfg]
                    (upd_table t (\<lambda>tb. tb\<lparr>t_fActive := False\<rparr>) s);
            s2 \<leftarrow> VmmCache2Close_empty t s1;
            VmmCache2Close_total t s2
          })"

section \<open>The scatter pipeline\<close>

subsection \<open>Descriptors, buffers and the transport\<close>

text \<open>
  Modelled from the spec: the stack macros of leechcore.h are not under src/.  Section
  4.6: a small LIFO in the descriptor.  A pop or a peek of an empty stack does not return
  a value; the capacity of the stack is not modelled.
\<close>

definition MEM_SCATTER_STACK_PUSH :: "qword \<Rightarrow> MEM_SCATTER \<Rightarrow> MEM_SCATTER" where
  "MEM_SCATTER_STACK_PUSH v m = m\<lparr>m_vStack := v # m_vStack m\<rparr>"

definition MEM_SCATTER_STACK_POP :: "MEM_SCATTER \<Rightarrow> (qword \<times> MEM_SCATTER) option" where
  "MEM_SCATTER_STACK_POP m =
     (case m_vStack m of [] \<Rightarrow> None | v # vs \<Rightarrow> Some (v, m\<lparr>m_vStack := vs\<rparr>))"

definition MEM_SCATTER_STACK_PEEK1 :: "MEM_SCATTER \<Rightarrow> qword option" where
  "MEM_SCATTER_STACK_PEEK1 m = (case m_vStack m of [] \<Rightarrow> None | v # vs \<Rightarrow> Some v)"

definition memcpy :: "byte list \<Rightarrow> byte list \<Rightarrow> nat \<Rightarrow> byte list" where
  "memcpy dst src n = take n src @ drop n dst"

definition ZeroMemory :: "byte list \<Rightarrow> nat \<Rightarrow> byte list" where
  "ZeroMemory dst n = replicate n 0 @ drop n dst"

text \<open>
  Modelled from the spec: \<open>LcReadScatter\<close> and \<open>LcWriteScatter\<close> of leechcore are not under
  src/.  Section 6: the transport fills the buffer of each descriptor and sets \<open>valid\<close> on
  success; a write sets \<open>valid\<close> on success.  The batch is recorded.
\<close>

definition LcReadScatter :: "vmm_config \<Rightarrow> MEM_SCATTER list \<Rightarrow> vmm_state \<Rightarrow> MEM_SCATTER list \<times> vmm_state" where
  "LcReadScatter cfg ms s =
     (map (\<lambda>m. case lc_read cfg m of None \<Rightarrow> m | Some d \<Rightarrow> m\<lparr>m_pb := d, m_f := True\<rparr>) ms,
      s\<lparr>lc_reads := ms # lc_reads s\<rparr>)"

definition LcWriteScatter :: "vmm_config \<Rightarrow> MEM_SCATTER list \<Rightarrow> vmm_state \<Rightarrow> MEM_SCATTER list \<times> vmm_state" where
  "LcWriteScatter cfg ms s =
     (map (\<lambda>m. if lc_write cfg m then m\<lparr>m_f := True\<rparr> else m) ms,
      s\<lparr>lc_writes := ms # lc_writes s\<rparr>)"

definition flag_set :: "qword \<Rightarrow> qword \<Rightarrow> bool" where
  "flag_set flag flags \<longleftrightarrow> flag AND flags \<noteq> 0"

subsection \<open>VmmCacheGet_FromDeviceOnMiss\<close>

definition VmmCacheGet_FromDeviceOnMiss ::
  "vmm_config \<Rightarrow> tbl_tag \<Rightarrow> tbl_tag option \<Rightarrow> qword \<Rightarrow> vmm_state \<Rightarrow> (addr option \<times> vmm_state) option" where
  "VmmCacheGet_FromDeviceOnMiss cfg dwTblTag dwTblTagSecondaryOpt qwA s = do {
     (pObMEM, s1) \<leftarrow> VmmCacheGet cfg dwTblTag qwA s;
     (case pObMEM of
        Some x \<Rightarrow> Some (Some x, s1)
      | None \<Rightarrow> do {
          (r, s2) \<leftarrow> VmmCacheReserve cfg dwTblTag s1;
          (case r of
             None \<Rightarrow> Some (None, s2)
           | Some pObReservedMEM \<Rightarrow> do {
               s3 \<leftarrow> ob_write pObReservedMEM (\<lambda>ob. ob\<lparr>ob_h := (ob_h ob)\<lparr>m_qwA := qwA\<rparr>\<rparr>) s2;
               (sec, s4) \<leftarrow> (case dwTblTagSecondaryOpt of
                                None \<Rightarrow> Some (None, s3)
                              | Some t2 \<Rightarrow> VmmCacheGet cfg t2 qwA s3);
               s5 \<leftarrow> (case sec of
                        None \<Rightarrow> Some s4
                      | Some y \<Rightarrow> do {
                          src \<leftarrow> heap s4 y;
                          s4a \<leftarrow> ob_write pObReservedMEM
                                   (\<lambda>ob. ob\<lparr>ob_h := (ob_h ob)\<lparr>m_f := True,
                                            m_pb := memcpy (m_pb (ob_h ob)) (m_pb (ob_h src)) 0x1000\<rparr>\<rparr>) s4;
                          Ob_DECREF (Some y) s4a
                        });
               ob5 \<leftarrow> heap s5 pObReservedMEM;
               s6 \<leftarrow> (if \<not> m_f (ob_h ob5)
                      then (case LcReadScatter cfg [ob_h ob5] s5 of
                              (ms, s5a) \<Rightarrow> ob_write pObReservedMEM (\<lambda>ob. ob\<lparr>ob_h := hd ms\<rparr>) s5a)
                      else Some s5);
               ob6 \<leftarrow> heap s6 pObReservedMEM;
               if m_f (ob_h ob6)
               then do {
                 s7 \<leftarrow> Ob_INCREF (Some pObReservedMEM) s6;
                 s8 \<leftarrow> VmmCacheReserveReturn cfg (Some pObReservedMEM) s7;
                 Some (Some pObReservedMEM, s8)
               }
               else do {
                 s7 \<leftarrow> VmmCacheReserveReturn cfg (Some pObReservedMEM) s6;
                 Some (None, s7)
               }
             })
        })
   }"

subsection \<open>VmmReadScatterPhysical\<close>

text \<open>
  The batch handed to the transport is an array of pointers: to descriptors of the caller
  (by their index in the caller's array) and to the headers of reserved cache objects.
\<close>

datatype mem_ref = Caller nat | CacheOb addr

definition ref_get :: "MEM_SCATTER list \<Rightarrow> vmm_state \<Rightarrow> mem_ref \<Rightarrow> MEM_SCATTER option" where
  "ref_get ms s r =
     (case r of
        Caller i \<Rightarrow> if i < length ms then Some (ms ! i) else None
      | CacheOb x \<Rightarrow> map_option ob_h (heap s x))"

definition ref_set :: "mem_ref \<Rightarrow> MEM_SCATTER \<Rightarrow> MEM_SCATTER list \<times> vmm_state \<Rightarrow> (MEM_SCATTER list \<times> vmm_state) option" where
  "ref_set r m mss =
     (case mss of (ms, s) \<Rightarrow>
        (case r of
           Caller i \<Rightarrow> if i < length ms then Some (ms[i := m], s) else None
         | CacheOb x \<Rightarrow> map_option (Pair ms) (ob_write x (\<lambda>ob. ob\<lparr>ob_h := m\<rparr>) s)))"

fun refs_get :: "MEM_SCATTER list \<Rightarrow> vmm_state \<Rightarrow> mem_ref list \<Rightarrow> MEM_SCATTER list option" where
  "refs_get ms s [] = Some []"
| "refs_get ms s (r # rs) = do {
     m \<leftarrow> ref_get ms s r;
     rest \<leftarrow> refs_get ms s rs;
     Some (m # rest)
   }"

fun refs_set :: "mem_ref list \<Rightarrow> MEM_SCATTER list \<Rightarrow> MEM_SCATTER list \<times> vmm_state \<Rightarrow> (MEM_SCATTER list \<times> vmm_state) option" where
  "refs_set (r # rs) (m # vs) mss = do { mss1 \<leftarrow> ref_set r m mss; refs_set rs vs mss1 }"
| "refs_set _ _ mss = Some mss"

text \<open>
  Step 1, the cache read, for the descriptors from index \<open>i\<close> on: \<open>c\<close> counts the finished
  descriptors, \<open>spec\<close> is \<open>ppMEMsSpeculative\<close> so far.
\<close>

fun phys_cache_read ::
  "vmm_config \<Rightarrow> MEM_SCATTER list \<Rightarrow> nat \<Rightarrow> nat \<Rightarrow> mem_ref list \<Rightarrow> vmm_state
   \<Rightarrow> (MEM_SCATTER list \<times> nat \<times> mem_ref list \<times> vmm_state) option" where
  "phys_cache_read cfg [] i c spec s = Some ([], c, spec, s)"
| "phys_cache_read cfg (pMEM # ms) i c spec s =
     (if m_f pMEM
      then do {
        (ms1, c1, spec1, s1) \<leftarrow> phys_cache_read cfg ms (i + 1) (c + 1) spec s;
        Some (MEM_SCATTER_STACK_PUSH 3 pMEM # ms1, c1, spec1, s1)
      }
      else do {
        (pObCacheEntry, s1) \<leftarrow> (if m_cb pMEM = 0x1000
                                 then VmmCacheGet cfg VMM_CACHE_TAG_PHYS (m_qwA pMEM) s
                                 else Some (None, s));
        (case pObCacheEntry of
           Some x \<Rightarrow> do {
             ob \<leftarrow> heap s1 x;
             s2 \<leftarrow> Ob_DECREF (Some x) s1;
             let s3 = s2\<lparr>stat := (stat s2)\<lparr>cPhysCacheHit := cPhysCacheHit (stat s2) + 1\<rparr>\<rparr>;
             (ms1, c1, spec1, s4) \<leftarrow> phys_cache_read cfg ms (i + 1) (c + 1) spec s3;
             Some ((MEM_SCATTER_STACK_PUSH 2 pMEM)
                     \<lparr>m_f := True, m_pb := memcpy (m_pb pMEM) (m_pb (ob_h ob)) 0x1000\<rparr> # ms1,
                   c1, spec1, s4)
           }
         | None \<Rightarrow> do {
             (ms1, c1, spec1, s2) \<leftarrow>
               phys_cache_read cfg ms (i + 1) c
                 (if length spec < 0x18 then spec @ [Caller i] else spec) s1;
             Some (MEM_SCATTER_STACK_PUSH 1 pMEM # ms1, c1, spec1, s2)
           })
      })"

fun pop_all :: "MEM_SCATTER list \<Rightarrow> MEM_SCATTER list option" where
  "pop_all [] = Some []"
| "pop_all (m # ms) = do {
     (v, m1) \<leftarrow> MEM_SCATTER_STACK_POP m;
     ms1 \<leftarrow> pop_all ms;
     Some (m1 # ms1)
   }"

text \<open>The first loop of step 2: a descriptor whose stack top is not 1 is popped.\<close>

fun pop_not_normal :: "MEM_SCATTER list \<Rightarrow> MEM_SCATTER list option" where
  "pop_not_normal [] = Some []"
| "pop_not_normal (m # ms) = do {
     tp \<leftarrow> MEM_SCATTER_STACK_PEEK1 m;
     m1 \<leftarrow> (if tp \<noteq> 1 then map_option snd (MEM_SCATTER_STACK_POP m) else Some m);
     ms1 \<leftarrow> pop_not_normal ms;
     Some (m1 # ms1)
   }"

text \<open>
  The second loop of step 2.  A reservation that fails is tried again, for ever when it
  keeps failing.
\<close>

partial_function (option) phys_speculative ::
  "vmm_config \<Rightarrow> MEM_SCATTER list \<Rightarrow> mem_ref list \<Rightarrow> vmm_state \<Rightarrow> (mem_ref list \<times> vmm_state) option" where
  "phys_speculative cfg ms spec s =
     (if length spec < 0x18
      then do {
        (p, s1) \<leftarrow> VmmCacheReserve cfg VMM_CACHE_TAG_PHYS s;
        (case p of
           None \<Rightarrow> phys_speculative cfg ms spec s1
         | Some x \<Rightarrow> do {
             prev \<leftarrow> (if spec = [] then None else ref_get ms s1 (last spec));
             s2 \<leftarrow> ob_write x
                    (\<lambda>ob. ob\<lparr>ob_h := (MEM_SCATTER_STACK_PUSH 4 (ob_h ob))
                               \<lparr>m_f := False, m_qwA := (m_qwA prev AND NOT 0xfff) + 0x1000\<rparr>\<rparr>) s1;
             phys_speculative cfg ms (spec @ [CacheOb x]) s2
           })
      }
      else Some (spec, s))"

text \<open>Step 4 for one descriptor: the statistics and the zero fill of a failed read.\<close>

definition phys_stat_fixup :: "vmm_config \<Rightarrow> qword \<Rightarrow> MEM_SCATTER \<Rightarrow> vmm_state \<Rightarrow> MEM_SCATTER \<times> vmm_state" where
  "phys_stat_fixup cfg flags pMEM s =
     (if m_f pMEM
      then (pMEM, s\<lparr>stat := (stat s)\<lparr>cPhysReadSuccess := cPhysReadSuccess (stat s) + 1\<rparr>\<rparr>)
      else
        (if flag_set (VMM_FLAG_ZEROPAD_ON_FAIL cfg) flags \<and> m_qwA pMEM < dev_paMax cfg
         then pMEM\<lparr>m_pb := ZeroMemory (m_pb pMEM) (unat (m_cb pMEM)), m_f := True\<rparr>
         else pMEM,
         s\<lparr>stat := (stat s)\<lparr>cPhysReadFail := cPhysReadFail (stat s) + 1\<rparr>\<rparr>))"

fun phys_stat_fixups :: "vmm_config \<Rightarrow> qword \<Rightarrow> mem_ref list \<Rightarrow> MEM_SCATTER list \<times> vmm_state \<Rightarrow> (MEM_SCATTER list \<times> vmm_state) option" where
  "phys_stat_fixups cfg flags [] mss = Some mss"
| "phys_stat_fixups cfg flags (r # rs) mss = do {
     pMEM \<leftarrow> ref_get (fst mss) (snd mss) r;
     let (m1, s1) = phys_stat_fixup cfg flags pMEM (snd mss);
     mss1 \<leftarrow> ref_set r m1 (fst mss, s1);
     phys_stat_fixups cfg flags rs mss1
   }"

text \<open>Step 5 for one entry of the batch.\<close>

definition phys_cache_put :: "vmm_config \<Rightarrow> qword \<Rightarrow> mem_ref \<Rightarrow> MEM_SCATTER list \<times> vmm_state \<Rightarrow> (MEM_SCATTER list \<times> vmm_state) option" where
  "phys_cache_put cfg flags r mss = do {
     m0 \<leftarrow> ref_get (fst mss) (snd mss) r;
     (tp, m1) \<leftarrow> MEM_SCATTER_STACK_POP m0;
     (ms1, s1) \<leftarrow> ref_set r m1 mss;
     if \<not> flag_set (VMM_FLAG_NOCACHEPUT cfg) flags
     then do {
       s2 \<leftarrow> (if tp = 4
              then (case r of
                      CacheOb x \<Rightarrow> VmmCacheReserveReturn cfg (Some x) s1
                    | Caller i \<Rightarrow> None)
              else Some s1);
       pMEM \<leftarrow> ref_get ms1 s2 r;
       if tp = 1 \<and> m_f pMEM
       then do {
         (p, s3) \<leftarrow> VmmCacheReserve cfg VMM_CACHE_TAG_PHYS s2;
         (case p of
            None \<Rightarrow> Some (ms1, s3)
          | Some pObReservedMEM \<Rightarrow> do {
              s4 \<leftarrow> ob_write pObReservedMEM
                     (\<lambda>ob. ob\<lparr>ob_h := (ob_h ob)\<lparr>m_f := True, m_qwA := m_qwA pMEM,
                              m_pb := memcpy (m_pb (ob_h ob)) (m_pb pMEM) 0x1000\<rparr>\<rparr>) s3;
              s5 \<leftarrow> VmmCacheReserveReturn cfg (Some pObReservedMEM) s4;
              Some (ms1, s5)
            })
       }
       else Some (ms1, s2)
     }
     else Some (ms1, s1)
   }"

fun phys_cache_puts :: "vmm_config \<Rightarrow> qword \<Rightarrow> mem_ref list \<Rightarrow> MEM_SCATTER list \<times> vmm_state \<Rightarrow> (MEM_SCATTER list \<times> vmm_state) option" where
  "phys_cache_puts cfg flags [] mss = Some mss"
| "phys_cache_puts cfg flags (r # rs) mss = do {
     mss1 \<leftarrow> phys_cache_put cfg flags r mss;
     phys_cache_puts cfg flags rs mss1
   }"

text \<open>Steps 3 to 5 on the batch.\<close>

definition phys_read_batch :: "vmm_config \<Rightarrow> bool \<Rightarrow> qword \<Rightarrow> mem_ref list \<Rightarrow> MEM_SCATTER list \<times> vmm_state \<Rightarrow> (MEM_SCATTER list \<times> vmm_state) option" where
  "phys_read_batch cfg fCache flags batch mss = do {
     vs \<leftarrow> refs_get (fst mss) (snd mss) batch;
     let (vs1, s1) = LcReadScatter cfg vs (snd mss);
     mss1 \<leftarrow> refs_set batch vs1 (fst mss, s1);
     mss2 \<leftarrow> phys_stat_fixups cfg flags batch mss1;
     if fCache then phys_cache_puts cfg flags batch mss2 else Some mss2
   }"

definition VmmReadScatterPhysical ::
  "vmm_config \<Rightarrow> MEM_SCATTER list \<Rightarrow> qword \<Rightarrow> vmm_state \<Rightarrow> (MEM_SCATTER list \<times> vmm_state) option" where
  "VmmReadScatterPhysical cfg ppMEMsPhys flags s =
     (let fCache = \<not> flag_set (VMM_FLAG_NOCACHE cfg) (flags OR ctx_flags cfg) in
      if fCache
      then do {
        (ms1, c, spec, s1) \<leftarrow> phys_cache_read cfg ppMEMsPhys 0 0 [] s;
        if c = length ppMEMsPhys \<or> flag_set (VMM_FLAG_FORCECACHE_READ cfg) flags
        then do { ms2 \<leftarrow> pop_all ms1; Some (ms2, s1) }
        else if spec \<noteq> [] \<and> length spec < 0x18
        then do {
          ms2 \<leftarrow> pop_not_normal ms1;
          (batch, s2) \<leftarrow> phys_speculative cfg ms2 spec s1;
          phys_read_batch cfg fCache flags batch (ms2, s2)
        }
        else phys_read_batch cfg fCache flags (map Caller [0 ..< length ms1]) (ms1, s1)
      }
      else phys_read_batch cfg fCache flags (map Caller [0 ..< length ppMEMsPhys]) (ppMEMsPhys, s))"

subsection \<open>VmmReadScatterVirtual\<close>

text \<open>A \<open>QWORD\<close> stored in a \<open>BOOL\<close> keeps its low 32 bits.\<close>

definition BOOL_of :: "qword \<Rightarrow> bool" where
  "BOOL_of q \<longleftrightarrow> (ucast q :: dword) \<noteq> 0"

definition LocalAlloc :: "vmm_config \<Rightarrow> vmm_state \<Rightarrow> bool \<times> vmm_state" where
  "LocalAlloc cfg s = (\<not> oom cfg (cAlloc s), s\<lparr>cAlloc := cAlloc s + 1\<rparr>)"

text \<open>
  Step 2, the translation, for the descriptors from index \<open>iVA\<close> on.  The result is the
  descriptors of the caller and the physical tasks; a task shares the buffer of its
  descriptor and has the index of the descriptor on its stack.
\<close>

fun virt_translate ::
  "vmm_config \<Rightarrow> addr \<Rightarrow> qword \<Rightarrow> MEM_SCATTER list \<Rightarrow> nat \<Rightarrow> qword \<Rightarrow> MEM_SCATTER list \<times> MEM_SCATTER list" where
  "virt_translate cfg pProcess flags [] iVA qwPagedPA = ([], [])"
| "virt_translate cfg pProcess flags (pIoVA # ms) iVA qwPagedPA =
     (let fPaging = \<not> flag_set (VMM_FLAG_NOPAGING cfg) (flags OR ctx_flags cfg);
          fAltAddrPte = BOOL_of (VMM_FLAG_ALTADDR_VA_PTE cfg AND flags);
          fZeropadOnFail = BOOL_of (VMM_FLAG_ZEROPAD_ON_FAIL cfg AND (flags OR ctx_flags cfg));
          zeroed = (if fZeropadOnFail then pIoVA\<lparr>m_pb := ZeroMemory (m_pb pIoVA) (unat (m_cb pIoVA))\<rparr> else pIoVA)
      in
      if m_f pIoVA \<or> m_qwA pIoVA = 0 \<or> m_qwA pIoVA = - 1
      then (case virt_translate cfg pProcess flags ms (iVA + 1) qwPagedPA of
              (vs, ps) \<Rightarrow> ((if \<not> m_f pIoVA then zeroed else pIoVA) # vs, ps))
      else
        (let (fVirt2Phys, qwPA) =
               (if fAltAddrPte then (False, 0) else VmmVirt2Phys cfg pProcess (m_qwA pIoVA) 0)
         in
         (case (if \<not> fVirt2Phys \<and> fPaging \<and> m_cb pIoVA = 0x1000 then pfnPagedRead cfg else None) of
            Some decode \<Rightarrow>
              (case decode pProcess (if fAltAddrPte then 0 else m_qwA pIoVA)
                      (if fAltAddrPte then m_qwA pIoVA else qwPA) (Some (m_pb pIoVA)) qwPagedPA flags of
                 (r, pb1, qwPagedPA1) \<Rightarrow>
                   (let pIoVA1 = pIoVA\<lparr>m_pb := (case pb1 of None \<Rightarrow> m_pb pIoVA | Some b \<Rightarrow> b)\<rparr>;
                        zeroed1 = (if fZeropadOnFail
                                   then pIoVA1\<lparr>m_pb := ZeroMemory (m_pb pIoVA1) (unat (m_cb pIoVA1))\<rparr>
                                   else pIoVA1)
                    in
                    if r
                    then (case virt_translate cfg pProcess flags ms (iVA + 1) qwPagedPA1 of
                            (vs, ps) \<Rightarrow> (pIoVA1 # vs, ps))
                    else if qwPagedPA1 \<noteq> 0
                    then (case virt_translate cfg pProcess flags ms (iVA + 1) qwPagedPA1 of
                            (vs, ps) \<Rightarrow>
                              (pIoVA1 # vs,
                               \<lparr>m_f = False, m_qwA = qwPagedPA1, m_pb = m_pb pIoVA1, m_cb = 0x1000,
                                m_vStack = [of_nat iVA]\<rparr> # ps))
                    else (case virt_translate cfg pProcess flags ms (iVA + 1) qwPagedPA1 of
                            (vs, ps) \<Rightarrow> (zeroed1 # vs, ps))))
          | None \<Rightarrow>
              if \<not> fVirt2Phys
              then (case virt_translate cfg pProcess flags ms (iVA + 1) qwPagedPA of
                      (vs, ps) \<Rightarrow> (zeroed # vs, ps))
              else (case virt_translate cfg pProcess flags ms (iVA + 1) qwPagedPA of
                      (vs, ps) \<Rightarrow>
                        (pIoVA # vs,
                         \<lparr>m_f = False, m_qwA = qwPA, m_pb = m_pb pIoVA, m_cb = 0x1000,
                          m_vStack = [of_nat iVA]\<rparr> # ps)))))"

text \<open>Step 3, after the physical read: each task gives its result to its descriptor.\<close>

fun virt_copy_back :: "MEM_SCATTER list \<Rightarrow> MEM_SCATTER list \<Rightarrow> MEM_SCATTER list option" where
  "virt_copy_back [] vs = Some vs"
| "virt_copy_back (pIoPA # ps) vs = do {
     vs1 \<leftarrow> virt_copy_back ps vs;
     (v, m1) \<leftarrow> MEM_SCATTER_STACK_POP pIoPA;
     if unat v < length vs1
     then Some (vs1[unat v := (vs1 ! unat v)\<lparr>m_f := m_f pIoPA, m_pb := m_pb pIoPA\<rparr>])
     else None
   }"

definition VmmReadScatterVirtual ::
  "vmm_config \<Rightarrow> addr \<Rightarrow> MEM_SCATTER list \<Rightarrow> qword \<Rightarrow> vmm_state \<Rightarrow> (MEM_SCATTER list \<times> vmm_state) option" where
  "VmmReadScatterVirtual cfg pProcess ppMEMsVirt flags s =
     (let (ok, s1) = (if length ppMEMsVirt < 0x20 then (True, s) else LocalAlloc cfg s) in
      if \<not> ok then Some (ppMEMsVirt, s1)
      else
        (case virt_translate cfg pProcess flags ppMEMsVirt 0 0 of
           (vs, ps) \<Rightarrow>
             if ps = [] then Some (vs, s1)
             else do {
               (ps1, s2) \<leftarrow> VmmReadScatterPhysical cfg ps flags s1;
               vs1 \<leftarrow> virt_copy_back ps1 vs;
               Some (vs1, s2)
             }))"

subsection \<open>VmmWriteScatterPhysical and VmmWriteScatterVirtual\<close>

fun phys_write_invalidate :: "vmm_config \<Rightarrow> MEM_SCATTER list \<Rightarrow> vmm_state \<Rightarrow> vmm_state option" where
  "phys_write_invalidate cfg [] s = Some s"
| "phys_write_invalidate cfg (pMEM # ms) s = do {
     let s1 = s\<lparr>stat := (stat s)\<lparr>cPhysWrite := cPhysWrite (stat s) + 1\<rparr>\<rparr>;
     s2 \<leftarrow> (if m_f pMEM \<and> m_qwA pMEM \<noteq> MEM_SCATTER_ADDR_INVALID cfg
            then VmmCacheInvalidate cfg (m_qwA pMEM AND NOT 0xfff) s1
            else Some s1);
     phys_write_invalidate cfg ms s2
   }"

definition VmmWriteScatterPhysical ::
  "vmm_config \<Rightarrow> MEM_SCATTER list \<Rightarrow> vmm_state \<Rightarrow> (MEM_SCATTER list \<times> vmm_state) option" where
  "VmmWriteScatterPhysical cfg ppMEMsPhys s =
     (case LcWriteScatter cfg ppMEMsPhys s of
        (ms, s1) \<Rightarrow> map_option (Pair ms) (phys_write_invalidate cfg ms s1))"

fun write_translate ::
  "vmm_config \<Rightarrow> addr \<Rightarrow> MEM_SCATTER list \<Rightarrow> qword \<Rightarrow> qword \<Rightarrow> MEM_SCATTER list option" where
  "write_translate cfg pProcess [] qwPA_PTE qwPagedPA = Some []"
| "write_translate cfg pProcess (pMEM # ms) qwPA_PTE qwPagedPA =
     (let m1 = MEM_SCATTER_STACK_PUSH (m_qwA pMEM) pMEM in
      if m_f m1 \<or> m_qwA m1 = - 1
      then map_option ((#) (m1\<lparr>m_qwA := - 1\<rparr>)) (write_translate cfg pProcess ms qwPA_PTE qwPagedPA)
      else
        (case VmmVirt2Phys cfg pProcess (m_qwA m1) qwPA_PTE of
           (True, pa) \<Rightarrow>
             map_option ((#) (m1\<lparr>m_qwA := pa\<rparr>)) (write_translate cfg pProcess ms pa qwPagedPA)
         | (False, pa) \<Rightarrow>
             (case pfnPagedRead cfg of
                None \<Rightarrow> None
              | Some decode \<Rightarrow>
                  (case decode pProcess (m_qwA m1) pa None qwPagedPA 0 of
                     (r, pb1, qwPagedPA1) \<Rightarrow>
                       map_option ((#) (m1\<lparr>m_qwA := (if qwPagedPA1 \<noteq> 0 then qwPagedPA1 else - 1)\<rparr>))
                         (write_translate cfg pProcess ms pa qwPagedPA1)))))"

fun write_restore :: "MEM_SCATTER list \<Rightarrow> MEM_SCATTER list option" where
  "write_restore [] = Some []"
| "write_restore (m # ms) = do {
     (v, m1) \<leftarrow> MEM_SCATTER_STACK_POP m;
     ms1 \<leftarrow> write_restore ms;
     Some (m1\<lparr>m_qwA := v\<rparr> # ms1)
   }"

definition VmmWriteScatterVirtual ::
  "vmm_config \<Rightarrow> addr \<Rightarrow> MEM_SCATTER list \<Rightarrow> vmm_state \<Rightarrow> (MEM_SCATTER list \<times> vmm_state) option" where
  "VmmWriteScatterVirtual cfg pProcess ppMEMsVirt s = do {
     ms \<leftarrow> write_translate cfg pProcess ppMEMsVirt 0 0;
     (ms1, s1) \<leftarrow> VmmWriteScatterPhysical cfg ms s;
     ms2 \<leftarrow> write_restore ms1;
     Some (ms2, s1)
   }"

section \<open>Reads and writes of byte ranges\<close>

definition cMEMs_of :: "qword \<Rightarrow> dword \<Rightarrow> dword" where
  "cMEMs_of qwA cb = ucast (drop_bit 12 ((qwA AND 0xfff) + ucast cb + 0xfff))"

text \<open>
  The loop of \<open>VmmWriteEx\<close> that prepares the pages.  \<open>oA\<close> and \<open>cbP\<close> are \<open>DWORD\<close>s that
  stay at most \<open>cb\<close>, so they are natural numbers here.  In \<open>ppMEMs[i++] = pMEM = pMEMs + i\<close>
  the descriptor \<open>i\<close> is taken to be stored at index \<open>i\<close>.
\<close>

function VmmWriteEx_prepare :: "qword \<Rightarrow> byte list \<Rightarrow> nat \<Rightarrow> nat \<Rightarrow> MEM_SCATTER list" where
  "VmmWriteEx_prepare qwA pb cb oA =
     (if oA < cb
      then (let cbP = min (0x1000 - unat ((qwA + of_nat oA) AND 0xfff)) (cb - oA) in
            \<lparr>m_f = False, m_qwA = qwA + of_nat oA, m_pb = take cbP (drop oA pb),
             m_cb = of_nat cbP, m_vStack = []\<rparr>
            # VmmWriteEx_prepare qwA pb cb (oA + cbP))
      else [])"
  by pat_completeness auto
termination
proof (relation "measure (\<lambda>(qwA, pb, cb, oA). cb - oA)")
  show "wf (measure (\<lambda>(qwA, pb, cb, oA). cb - oA))" by simp
next
  fix qwA :: qword and pb :: "byte list" and cb oA x :: nat
  assume lt: "oA < cb"
    and x: "x = min (0x1000 - unat ((qwA + of_nat oA) AND 0xfff)) (cb - oA)"
  have "(qwA + of_nat oA) AND 0xfff \<le> 0xfff"
    by (rule word_and_le1)
  then have "unat ((qwA + of_nat oA) AND 0xfff) \<le> 0xfff"
    by (simp add: word_le_nat_alt)
  with lt x have "0 < x" by simp
  with lt show "((qwA, pb, cb, oA + x), (qwA, pb, cb, oA)) \<in> measure (\<lambda>(qwA, pb, cb, oA). cb - oA)"
    by simp
qed

text \<open>
  \<open>ppMEMs\<close>, an array of \<open>cMEMs\<close> pointers that \<open>LocalAlloc\<close> has zeroed: the prepared
  descriptors, then \<open>NULL\<close>.  A callee reads every pointer of the array.
\<close>

definition deref_all :: "MEM_SCATTER option list \<Rightarrow> MEM_SCATTER list option" where
  "deref_all pp = (if None \<in> set pp then None else Some (map the pp))"

definition VmmWriteEx ::
  "vmm_config \<Rightarrow> addr option \<Rightarrow> qword \<Rightarrow> byte list \<Rightarrow> dword \<Rightarrow> vmm_state \<Rightarrow> (dword \<times> vmm_state) option" where
  "VmmWriteEx cfg pProcess qwA pb cb s =
     (let cMEMs = unat (cMEMs_of qwA cb);
          (ok, s1) = LocalAlloc cfg s
      in
      if \<not> ok then Some (0, s1)
      else
        (let pMEMs = VmmWriteEx_prepare qwA pb (unat cb) 0;
             ppMEMs = map Some pMEMs @ replicate (cMEMs - length pMEMs) None
         in
         if cMEMs < length pMEMs then None
         else do {
           ms \<leftarrow> deref_all ppMEMs;
           (ms1, s2) \<leftarrow> (case pProcess of
                           Some p \<Rightarrow> VmmWriteScatterVirtual cfg p ms s1
                         | None \<Rightarrow> VmmWriteScatterPhysical cfg ms s1);
           Some (sum_list (map m_cb (filter m_f ms1)), s2)
         }))"

definition VmmWrite ::
  "vmm_config \<Rightarrow> addr option \<Rightarrow> qword \<Rightarrow> byte list \<Rightarrow> dword \<Rightarrow> vmm_state \<Rightarrow> (bool \<times> vmm_state) option" where
  "VmmWrite cfg pProcess qwA pb cb s = do {
     (cbWrite, s1) \<leftarrow> VmmWriteEx cfg pProcess qwA pb cb s;
     Some (cbWrite = cb, s1)
   }"

definition write_at :: "byte list \<Rightarrow> nat \<Rightarrow> byte list \<Rightarrow> byte list" where
  "write_at buf off data = take off buf @ data @ drop (off + length data) buf"

text \<open>
  \<open>VmmReadEx\<close>: \<open>pb\<close> is the buffer of the caller, of \<open>cb\<close> bytes.  The first and the last
  page are read into the two scratch pages, a middle page into its slice of \<open>pb\<close>.  The
  result is the buffer, the byte count and the state.
\<close>

definition VmmReadEx ::
  "vmm_config \<Rightarrow> addr option \<Rightarrow> qword \<Rightarrow> byte list \<Rightarrow> dword \<Rightarrow> qword \<Rightarrow> vmm_state
   \<Rightarrow> (byte list \<times> dword \<times> vmm_state) option" where
  "VmmReadEx cfg pProcess qwA pb cb flags s =
     (if cb = 0 then Some (pb, 0, s)
      else
        (let cMEMs = unat (cMEMs_of qwA cb);
             (ok, s1) = LocalAlloc cfg s
         in
         if \<not> ok then Some (ZeroMemory pb (unat cb), 0, s1)
         else
           (let oA = qwA AND 0xfff;
                pMEMs = map (\<lambda>i. \<lparr>m_f = False, m_qwA = qwA - oA + push_bit 12 (of_nat i),
                                   m_pb = (if i = 0 \<or> i = cMEMs - 1 then replicate 0x1000 0
                                           else take 0x1000 (drop (i * 0x1000 - unat oA) pb)),
                                   m_cb = 0x1000, m_vStack = []\<rparr>) [0 ..< cMEMs]
            in do {
              (ms, s2) \<leftarrow> (case pProcess of
                             Some p \<Rightarrow> VmmReadScatterVirtual cfg p pMEMs flags s1
                           | None \<Rightarrow> VmmReadScatterPhysical cfg pMEMs flags s1);
              if length ms \<noteq> cMEMs \<or> cMEMs = 0 then None
              else
                (let page = (\<lambda>i. if m_f (ms ! i) then m_pb (ms ! i) else ZeroMemory (m_pb (ms ! i)) 0x1000);
                     fFirst = m_f (ms ! 0);
                     fLast = m_f (ms ! (cMEMs - 1));
                     cbRead0 = 0x1000 * of_nat (length (filter m_f ms))
                               - (if fFirst then 0x1000 else 0)
                               - (if cMEMs > 1 \<and> fLast then 0x1000 else 0);
                     pb1 = foldl (\<lambda>b i. write_at b (i * 0x1000 - unat oA) (take 0x1000 (page i))) pb
                             [1 ..< cMEMs - 1];
                     cbP = (ucast (min (ucast cb) (0x1000 - oA)) :: dword);
                     pb2 = write_at pb1 0
                             (if fFirst then take (unat cbP) (drop (unat oA) (page 0))
                              else replicate (unat cbP) 0);
                     cbRead1 = cbRead0 + (if fFirst then cbP else 0);
                     cbL = (if (qwA + ucast cb) AND 0xfff \<noteq> 0
                            then (ucast ((qwA + ucast cb) AND 0xfff) :: dword) else 0x1000);
                     pb3 = (if cMEMs > 1
                            then write_at pb2 (cMEMs * 0x1000 - unat oA - 0x1000)
                                   (if fLast then take (unat cbL) (page (cMEMs - 1))
                                    else replicate (unat cbL) 0)
                            else pb2);
                     cbRead2 = cbRead1 + (if cMEMs > 1 \<and> fLast then cbL else 0)
                 in Some (pb3, cbRead2, s2))
            })))"

definition VmmRead ::
  "vmm_config \<Rightarrow> addr option \<Rightarrow> qword \<Rightarrow> byte list \<Rightarrow> dword \<Rightarrow> vmm_state \<Rightarrow> (bool \<times> byte list \<times> vmm_state) option" where
  "VmmRead cfg pProcess qwA pb cb s = do {
     (pb1, cbRead, s1) \<leftarrow> VmmReadEx cfg pProcess qwA pb cb 0 s;
     Some (cbRead = cb, pb1, s1)
   }"

datatype NTSTATUS = STATUS_SUCCESS | STATUS_END_OF_FILE

text \<open>
  The length that \<open>VmmReadAsFile\<close> and \<open>VmmWriteAsFile\<close> pass on, \<open>(DWORD)min(cb, cbMax)\<close>,
  computed in 64 bits with wrap-around.
\<close>

definition VmmAsFile_cb :: "qword \<Rightarrow> qword \<Rightarrow> dword \<Rightarrow> qword \<Rightarrow> dword" where
  "VmmAsFile_cb qwMemoryAddress cbMemorySize cb cbOffset =
     (let cbMax = min (qwMemoryAddress + cbMemorySize) (qwMemoryAddress + ucast cb + cbOffset)
                  - (qwMemoryAddress + cbOffset)
      in ucast (min (ucast cb) cbMax))"

definition VmmReadAsFile ::
  "vmm_config \<Rightarrow> addr option \<Rightarrow> qword \<Rightarrow> qword \<Rightarrow> byte list \<Rightarrow> dword \<Rightarrow> qword \<Rightarrow> vmm_state
   \<Rightarrow> (NTSTATUS \<times> byte list \<times> dword \<times> vmm_state) option" where
  "VmmReadAsFile cfg pProcess qwMemoryAddress cbMemorySize pb cb cbOffset s =
     (if cbMemorySize \<le> cbOffset then Some (STATUS_END_OF_FILE, pb, 0, s)
      else
        (let cbRead = VmmAsFile_cb qwMemoryAddress cbMemorySize cb cbOffset
         in
         if cbRead = 0 then Some (STATUS_END_OF_FILE, pb, cbRead, s)
         else do {
           (pb1, n, s1) \<leftarrow> VmmReadEx cfg pProcess (qwMemoryAddress + cbOffset) pb cbRead
                              (VMM_FLAG_ZEROPAD_ON_FAIL cfg) s;
           Some (STATUS_SUCCESS, pb1, cbRead, s1)
         }))"

definition VmmWriteAsFile ::
  "vmm_config \<Rightarrow> addr option \<Rightarrow> qword \<Rightarrow> qword \<Rightarrow> byte list \<Rightarrow> dword \<Rightarrow> qword \<Rightarrow> vmm_state
   \<Rightarrow> (NTSTATUS \<times> dword \<times> vmm_state) option" where
  "VmmWriteAsFile cfg pProcess qwMemoryAddress cbMemorySize pb cb cbOffset s =
     (if cbMemorySize \<le> cbOffset then Some (STATUS_END_OF_FILE, 0, s)
      else
        (let cbWrite = VmmAsFile_cb qwMemoryAddress cbMemorySize cb cbOffset
         in
         if cbWrite = 0 then Some (STATUS_END_OF_FILE, cbWrite, s)
         else do {
           (n, s1) \<leftarrow> VmmWriteEx cfg pProcess (qwMemoryAddress + cbOffset) pb cbWrite s;
           Some (STATUS_SUCCESS, cbWrite, s1)
         }))"

section \<open>The process table\<close>

record VMM_TOKEN =
  fInitialized :: bool
  fSID :: bool
  qwLUID :: qword
  dwSessionId :: dword

record VMM_PROCESS =
  dwPID :: dword
  dwPPID :: dword
  dwState :: dword
  paDTB :: qword
  paDTB_UserOpt :: qword
  szName :: "byte list"
  fUserOnly :: bool
  fTlbSpiderDone :: bool
  EPROCESS_pb :: "byte list"
  TOKEN :: VMM_TOKEN
  pObPersistent :: "addr option"
  pObProcessCloneParent :: "addr option"

text \<open>
  \<open>_M\<close> and \<open>_iFLinkM\<close> are arrays of \<open>VMM_PROCESSTABLE_ENTRIES_MAX\<close> entries; \<open>c\<close> and
  \<open>cActive\<close> are \<open>SIZE_T\<close> counters that stay at most the number of entries, natural
  numbers here.  \<open>pObCNewPROC\<close> is the object its container holds.
\<close>

record VMMOB_PROCESS_TABLE =
  pt_M :: "nat \<Rightarrow> addr option"
  pt_iFLinkM :: "nat \<Rightarrow> word16"
  pt_iFLink :: word16
  pt_c :: nat
  pt_cActive :: nat
  pObCNewPROC :: "addr option"

text \<open>
  The process objects and the process tables by address, the object of the container
  \<open>ctxVmm->pObCPROC\<close>, and the number of allocations made so far.  An object is never
  freed in this part of the model: the reference counts of processes and tables are not
  modelled.
\<close>

record proc_state =
  procs :: "addr \<Rightarrow> VMM_PROCESS option"
  tables :: "addr \<Rightarrow> VMMOB_PROCESS_TABLE option"
  pObCPROC :: "addr option"
  p_cAlloc :: nat

text \<open>
  The constants of vmm.h and the collaborators of the process functions: \<open>dtb_verify\<close> is
  the check of step 1 of \<open>VmmProcessCreateEntry\<close> (\<open>VmmTlbGetPageTable\<close> and
  \<open>VmmTlbPageTableVerify\<close>), \<open>token_ensure\<close> gives the \<open>TOKEN\<close> records that
  \<open>VmmProcess_TokenTryEnsure\<close> leaves in the processes of a table, \<open>p_oom n\<close> says that
  allocation number \<open>n\<close> fails.
\<close>

record proc_config =
  VMM_PROCESSTABLE_ENTRIES_MAX :: nat
  VMM_PID_PROCESS_CLONE_WITH_KERNELMEMORY :: dword
  VMM_FLAG_PROCESS_TOKEN :: qword
  VMM_FLAG_PROCESS_SHOW_TERMINATED :: qword
  pctx_flags :: qword
  dtb_verify :: "qword \<Rightarrow> bool"
  token_ensure :: "proc_state \<Rightarrow> addr \<Rightarrow> addr \<Rightarrow> VMM_TOKEN"
  p_oom :: "nat \<Rightarrow> bool"

subsection \<open>VmmProcessGetEx\<close>

text \<open>
  \<open>VmmProcess_TokenTryEnsureLock\<close>: \<open>VmmProcess_TokenTryEnsure\<close> writes the \<open>TOKEN\<close> records
  of processes only; what it writes comes from reads of the target.
\<close>

definition VmmProcess_TokenTryEnsureLock :: "proc_config \<Rightarrow> addr \<Rightarrow> addr \<Rightarrow> proc_state \<Rightarrow> proc_state" where
  "VmmProcess_TokenTryEnsureLock cfg pt pProcess s =
     (case procs s pProcess of
        None \<Rightarrow> s
      | Some p \<Rightarrow>
          if fInitialized (TOKEN p) then s
          else s\<lparr>procs := (\<lambda>x. map_option (\<lambda>q. q\<lparr>TOKEN := token_ensure cfg s pt x\<rparr>) (procs s x))\<rparr>)"

text \<open>The step \<open>if(++i == VMM_PROCESSTABLE_ENTRIES_MAX) { i = 0; }\<close> of the probe loops.\<close>

definition slot_next :: "nat \<Rightarrow> nat \<Rightarrow> nat" where
  "slot_next N i = (if i + 1 = N then 0 else i + 1)"

text \<open>
  The probe loop of \<open>VmmProcessGetEx\<close>, from slot \<open>i\<close>: the slot of the process, or no slot.
  A slot that holds a freed process does not return.
\<close>

function VmmProcessGetEx_probe ::
  "proc_config \<Rightarrow> proc_state \<Rightarrow> VMMOB_PROCESS_TABLE \<Rightarrow> dword \<Rightarrow> nat \<Rightarrow> nat \<Rightarrow> nat option option" where
  "VmmProcessGetEx_probe cfg s pt pid iStart i =
     (if \<not> (i < VMM_PROCESSTABLE_ENTRIES_MAX cfg \<and> iStart < VMM_PROCESSTABLE_ENTRIES_MAX cfg) then None
      else
        (case pt_M pt i of
           None \<Rightarrow> Some None
         | Some x \<Rightarrow>
             (case procs s x of
                None \<Rightarrow> None
              | Some p \<Rightarrow>
                  if dwPID p = pid then Some (Some i)
                  else if slot_next (VMM_PROCESSTABLE_ENTRIES_MAX cfg) i = iStart then Some None
                  else VmmProcessGetEx_probe cfg s pt pid iStart
                         (slot_next (VMM_PROCESSTABLE_ENTRIES_MAX cfg) i))))"
  by pat_completeness auto
termination
proof (relation "measure (\<lambda>(cfg, s, pt, pid, iStart, i).
          (iStart + VMM_PROCESSTABLE_ENTRIES_MAX cfg - Suc i) mod VMM_PROCESSTABLE_ENTRIES_MAX cfg)")
  show "wf (measure (\<lambda>(cfg, s, pt, pid, iStart, i).
          (iStart + VMM_PROCESSTABLE_ENTRIES_MAX cfg - Suc i) mod VMM_PROCESSTABLE_ENTRIES_MAX cfg))"
    by simp
next
  fix cfg :: proc_config and s :: proc_state and pt :: VMMOB_PROCESS_TABLE and pid :: dword
    and iStart i :: nat
  assume r: "\<not> \<not> (i < VMM_PROCESSTABLE_ENTRIES_MAX cfg \<and> iStart < VMM_PROCESSTABLE_ENTRIES_MAX cfg)"
    and ne0: "slot_next (VMM_PROCESSTABLE_ENTRIES_MAX cfg) i \<noteq> iStart"
  define N where "N = VMM_PROCESSTABLE_ENTRIES_MAX cfg"
  define i1 where "i1 = slot_next N i"
  have i1: "i1 = (if i + 1 = VMM_PROCESSTABLE_ENTRIES_MAX cfg then 0 else i + 1)"
    by (simp add: i1_def slot_next_def N_def)
  have ne: "i1 \<noteq> iStart" using ne0 by (simp add: i1_def N_def)
  have lt: "i < N" "iStart < N" using r by (simp_all add: N_def)
  have "(iStart + N - Suc i1) mod N < (iStart + N - Suc i) mod N"
  proof (cases "i + 1 = N")
    case True
    then have i10: "i1 = 0" using i1 by (simp add: N_def)
    have "iStart + N - Suc i = iStart" using True by arith
    then have a: "(iStart + N - Suc i) mod N = iStart" using lt by (simp only: mod_less)
    have "iStart + N - Suc i1 = (iStart - 1) + N" using ne i10 by arith
    then have b: "(iStart + N - Suc i1) mod N = iStart - 1"
      using lt by (simp only: mod_add_self2 mod_less less_imp_diff_less)
    show ?thesis unfolding a b using i10 ne by arith
  next
    case False
    then have i1s: "i1 = Suc i" using i1 by (simp add: N_def)
    show ?thesis
    proof (cases "i < iStart")
      case True
      then have e: "iStart + N - Suc i = (iStart - Suc i) + N" "iStart + N - Suc i1 = (iStart - Suc i1) + N"
        using ne i1s by arith+
      have "(iStart + N - Suc i) mod N = iStart - Suc i" "(iStart + N - Suc i1) mod N = iStart - Suc i1"
        unfolding e using lt by (simp_all only: mod_add_self2 mod_less less_imp_diff_less)
      then show ?thesis using True ne i1s by arith
    next
      case ge: False
      have "iStart + N - Suc i < N" "iStart + N - Suc i1 < N" using ge lt i1s by arith+
      then have "(iStart + N - Suc i) mod N = iStart + N - Suc i" "(iStart + N - Suc i1) mod N = iStart + N - Suc i1"
        by (simp_all only: mod_less)
      then show ?thesis using lt i1s False by arith
    qed
  qed
  then show "((cfg, s, pt, pid, iStart, slot_next (VMM_PROCESSTABLE_ENTRIES_MAX cfg) i), (cfg, s, pt, pid, iStart, i)) \<in>
      measure (\<lambda>(cfg, s, pt, pid, iStart, i).
          (iStart + VMM_PROCESSTABLE_ENTRIES_MAX cfg - Suc i) mod VMM_PROCESSTABLE_ENTRIES_MAX cfg)"
    by (simp add: N_def i1_def)
qed

text \<open>The lookup of \<open>VmmProcessGetEx\<close> in a given table, up to the label \<open>fail\<close>.\<close>

definition VmmProcessGetEx_lookup ::
  "proc_config \<Rightarrow> addr \<Rightarrow> dword \<Rightarrow> qword \<Rightarrow> proc_state \<Rightarrow> (addr option \<times> proc_state) option" where
  "VmmProcessGetEx_lookup cfg ptA pid flags s = do {
     pt \<leftarrow> tables s ptA;
     let fToken = BOOL_of ((flags OR pctx_flags cfg) AND VMM_FLAG_PROCESS_TOKEN cfg);
     let iStart = unat pid mod VMM_PROCESSTABLE_ENTRIES_MAX cfg;
     r \<leftarrow> VmmProcessGetEx_probe cfg s pt pid iStart iStart;
     (case r of
        None \<Rightarrow> Some (None, s)
      | Some i \<Rightarrow>
          Some (pt_M pt i,
                if fToken then (case pt_M pt i of None \<Rightarrow> s
                                | Some x \<Rightarrow> VmmProcess_TokenTryEnsureLock cfg ptA x s)
                else s))
   }"

definition VmmProcessClone :: "proc_config \<Rightarrow> addr \<Rightarrow> proc_state \<Rightarrow> (addr option \<times> proc_state) option" where
  "VmmProcessClone cfg pProcess s = do {
     p \<leftarrow> procs s pProcess;
     if pObProcessCloneParent p \<noteq> None then Some (None, s)
     else if p_oom cfg (p_cAlloc s) then Some (None, s\<lparr>p_cAlloc := p_cAlloc s + 1\<rparr>)
     else Some (Some (p_cAlloc s),
                s\<lparr>p_cAlloc := p_cAlloc s + 1,
                  procs := (procs s)(p_cAlloc s := Some (p\<lparr>pObProcessCloneParent := Some pProcess\<rparr>))\<rparr>)
   }"

text \<open>
  \<open>VmmProcessGetEx\<close> on a given table.  The call of itself after the label \<open>fail\<close> has the
  clone bit cleared, so it is a lookup that, when it fails, returns \<open>NULL\<close>.
\<close>

definition VmmProcessGetEx_pt ::
  "proc_config \<Rightarrow> addr \<Rightarrow> dword \<Rightarrow> qword \<Rightarrow> proc_state \<Rightarrow> (addr option \<times> proc_state) option" where
  "VmmProcessGetEx_pt cfg ptA pid flags s = do {
     (r, s1) \<leftarrow> VmmProcessGetEx_lookup cfg ptA pid flags s;
     (case r of
        Some x \<Rightarrow> Some (Some x, s1)
      | None \<Rightarrow>
          if pid AND VMM_PID_PROCESS_CLONE_WITH_KERNELMEMORY cfg \<noteq> 0
          then do {
            (r2, s2) \<leftarrow> VmmProcessGetEx_lookup cfg ptA
                          (pid AND NOT (VMM_PID_PROCESS_CLONE_WITH_KERNELMEMORY cfg)) flags s1;
            (case r2 of
               None \<Rightarrow> Some (None, s2)
             | Some pObProcess \<Rightarrow> do {
                 (c, s3) \<leftarrow> VmmProcessClone cfg pObProcess s2;
                 (case c of
                    None \<Rightarrow> Some (None, s3)
                  | Some pObProcessClone \<Rightarrow> do {
                      q \<leftarrow> procs s3 pObProcessClone;
                      Some (Some pObProcessClone,
                            s3\<lparr>procs := (procs s3)(pObProcessClone := Some (q\<lparr>fUserOnly := False\<rparr>))\<rparr>)
                    })
               })
          }
          else Some (None, s1))
   }"

text \<open>
  \<open>VmmProcessGetEx\<close>: with \<open>pt = NULL\<close> the table of the container is taken; when the
  container is empty the function calls itself for ever.
\<close>

definition VmmProcessGetEx ::
  "proc_config \<Rightarrow> addr option \<Rightarrow> dword \<Rightarrow> qword \<Rightarrow> proc_state \<Rightarrow> (addr option \<times> proc_state) option" where
  "VmmProcessGetEx cfg pt pid flags s =
     (case pt of
        Some ptA \<Rightarrow> VmmProcessGetEx_pt cfg ptA pid flags s
      | None \<Rightarrow>
          (case pObCPROC s of
             None \<Rightarrow> None
           | Some ptA \<Rightarrow> VmmProcessGetEx_pt cfg ptA pid flags s))"

subsection \<open>VmmProcessCreateEntry and VmmProcessCreateFinish\<close>

text \<open>Step 5: the first empty slot from slot \<open>i\<close> on, or none after a round.\<close>

function VmmProcessCreateEntry_slot :: "nat \<Rightarrow> VMMOB_PROCESS_TABLE \<Rightarrow> nat \<Rightarrow> nat \<Rightarrow> nat option" where
  "VmmProcessCreateEntry_slot N pt iStart i =
     (if \<not> (i < N \<and> iStart < N) then None
      else if pt_M pt i = None then Some i
      else if slot_next N i = iStart then None
      else VmmProcessCreateEntry_slot N pt iStart (slot_next N i))"
  by pat_completeness auto
termination
proof (relation "measure (\<lambda>(N, pt, iStart, i). (iStart + N - Suc i) mod N)")
  show "wf (measure (\<lambda>(N, pt, iStart, i). (iStart + N - Suc i) mod N))"
    by simp
next
  fix N :: nat and pt :: VMMOB_PROCESS_TABLE and iStart i :: nat
  assume r: "\<not> \<not> (i < N \<and> iStart < N)"
    and ne0: "slot_next N i \<noteq> iStart"
  define i1 where "i1 = slot_next N i"
  have i1: "i1 = (if i + 1 = N then 0 else i + 1)"
    by (simp add: i1_def slot_next_def)
  have ne: "i1 \<noteq> iStart" using ne0 by (simp add: i1_def)
  have lt: "i < N" "iStart < N" using r by simp_all
  have "(iStart + N - Suc i1) mod N < (iStart + N - Suc i) mod N"
  proof (cases "i + 1 = N")
    case True
    then have i10: "i1 = 0" using i1 by simp
    have "iStart + N - Suc i = iStart" using True by arith
    then have a: "(iStart + N - Suc i) mod N = iStart" using lt by (simp only: mod_less)
    have "iStart + N - Suc i1 = (iStart - 1) + N" using ne i10 by arith
    then have b: "(iStart + N - Suc i1) mod N = iStart - 1"
      using lt by (simp only: mod_add_self2 mod_less less_imp_diff_less)
    show ?thesis unfolding a b using i10 ne by arith
  next
    case False
    then have i1s: "i1 = Suc i" using i1 by simp
    show ?thesis
    proof (cases "i < iStart")
      case True
      then have e: "iStart + N - Suc i = (iStart - Suc i) + N" "iStart + N - Suc i1 = (iStart - Suc i1) + N"
        using ne i1s by arith+
      have "(iStart + N - Suc i) mod N = iStart - Suc i" "(iStart + N - Suc i1) mod N = iStart - Suc i1"
        unfolding e using lt by (simp_all only: mod_add_self2 mod_less less_imp_diff_less)
      then show ?thesis using True ne i1s by arith
    next
      case ge: False
      have "iStart + N - Suc i < N" "iStart + N - Suc i1 < N" using ge lt i1s by arith+
      then have "(iStart + N - Suc i) mod N = iStart + N - Suc i" "(iStart + N - Suc i1) mod N = iStart + N - Suc i1"
        by (simp_all only: mod_less)
      then show ?thesis using lt i1s False by arith
    qed
  qed
  then show "((N, pt, iStart, slot_next N i), (N, pt, iStart, i)) \<in> measure (\<lambda>(N, pt, iStart, i). (iStart + N - Suc i) mod N)"
    by (simp add: i1_def)
qed

definition table_new :: VMMOB_PROCESS_TABLE where
  "table_new = \<lparr>pt_M = (\<lambda>_. None), pt_iFLinkM = (\<lambda>_. 0), pt_iFLink = 0, pt_c = 0, pt_cActive = 0,
                pObCNewPROC = None\<rparr>"

text \<open>Step 2: the table under construction, allocated and attached when it is missing.\<close>

definition VmmProcessCreateEntry_table :: "proc_config \<Rightarrow> addr \<Rightarrow> proc_state \<Rightarrow> (addr option \<times> proc_state) option" where
  "VmmProcessCreateEntry_table cfg ptOld s = do {
     tOld \<leftarrow> tables s ptOld;
     (case pObCNewPROC tOld of
        Some ptNew \<Rightarrow> Some (Some ptNew, s)
      | None \<Rightarrow>
          if p_oom cfg (p_cAlloc s) then Some (None, s\<lparr>p_cAlloc := p_cAlloc s + 1\<rparr>)
          else Some (Some (p_cAlloc s),
                     s\<lparr>p_cAlloc := p_cAlloc s + 1,
                       tables := (tables s)(p_cAlloc s := Some table_new,
                                            ptOld := Some (tOld\<lparr>pObCNewPROC := Some (p_cAlloc s)\<rparr>))\<rparr>))
   }"

text \<open>
  Step 4 when no process is carried over: a new process object, with the persistent part
  of the live process of the same PID when there is one.
\<close>

definition VmmProcessCreateEntry_alloc ::
  "proc_config \<Rightarrow> dword \<Rightarrow> dword \<Rightarrow> dword \<Rightarrow> qword \<Rightarrow> qword \<Rightarrow> byte list \<Rightarrow> bool \<Rightarrow> byte list
   \<Rightarrow> proc_state \<Rightarrow> (addr option \<times> proc_state) option" where
  "VmmProcessCreateEntry_alloc cfg pid ppid state dtb dtbUserOpt name userOnly pbEPROCESS s =
     (if p_oom cfg (p_cAlloc s) then Some (None, s\<lparr>p_cAlloc := p_cAlloc s + 1\<rparr>)
      else do {
        let pProcess = p_cAlloc s;
        (pProcessOld, s1) \<leftarrow> VmmProcessGetEx cfg None pid 0 (s\<lparr>p_cAlloc := p_cAlloc s + 1\<rparr>);
        pers \<leftarrow> (case pProcessOld of
                   Some y \<Rightarrow> map_option pObPersistent (procs s1 y)
                 | None \<Rightarrow> Some (if p_oom cfg (p_cAlloc s1) then None else Some (p_cAlloc s1)));
        Some (Some pProcess,
              s1\<lparr>p_cAlloc := (if pProcessOld = None then p_cAlloc s1 + 1 else p_cAlloc s1),
                 procs := (procs s1)(pProcess := Some
                   \<lparr>dwPID = pid, dwPPID = ppid, dwState = state, paDTB = dtb,
                    paDTB_UserOpt = dtbUserOpt,
                    szName = take 15 name @ [0],
                    fUserOnly = userOnly, fTlbSpiderDone = False,
                    EPROCESS_pb = pbEPROCESS,
                    TOKEN = \<lparr>fInitialized = False, fSID = False, qwLUID = 0, dwSessionId = 0\<rparr>,
                    pObPersistent = pers,
                    pObProcessCloneParent = None\<rparr>)\<rparr>)
      })"

text \<open>Step 5: the process goes into the first empty slot and to the front of the list.\<close>

definition VmmProcessCreateEntry_install ::
  "proc_config \<Rightarrow> addr \<Rightarrow> dword \<Rightarrow> addr \<Rightarrow> proc_state \<Rightarrow> (addr option \<times> proc_state) option" where
  "VmmProcessCreateEntry_install cfg ptNew pid pProcess s = do {
     tNew \<leftarrow> tables s ptNew;
     p \<leftarrow> procs s pProcess;
     let N = VMM_PROCESSTABLE_ENTRIES_MAX cfg;
     (case VmmProcessCreateEntry_slot N tNew (unat pid mod N) (unat pid mod N) of
        None \<Rightarrow> Some (None, s)
      | Some i \<Rightarrow>
          Some (Some pProcess,
                s\<lparr>tables := (tables s)(ptNew := Some
                     (tNew\<lparr>pt_M := (pt_M tNew)(i := Some pProcess),
                           pt_iFLinkM := (pt_iFLinkM tNew)(i := pt_iFLink tNew),
                           pt_iFLink := of_nat i,
                           pt_c := pt_c tNew + 1,
                           pt_cActive := pt_cActive tNew + (if dwState p = 0 then 1 else 0)\<rparr>))\<rparr>))
   }"

text \<open>Step 4: the process of the live table is carried over, or a new one is made.\<close>

definition VmmProcessCreateEntry_prepare ::
  "proc_config \<Rightarrow> bool \<Rightarrow> dword \<Rightarrow> dword \<Rightarrow> dword \<Rightarrow> qword \<Rightarrow> qword \<Rightarrow> byte list \<Rightarrow> bool \<Rightarrow> byte list
   \<Rightarrow> addr \<Rightarrow> proc_state \<Rightarrow> (addr option \<times> proc_state) option" where
  "VmmProcessCreateEntry_prepare cfg fTotalRefresh pid ppid state dtb dtbUserOpt name userOnly pbEPROCESS ptOld s = do {
     (old, s1) \<leftarrow> (if \<not> fTotalRefresh then VmmProcessGetEx cfg (Some ptOld) pid 0 s
                    else Some (None, s));
     (case old of
        Some x \<Rightarrow> Some (Some x, s1)
      | None \<Rightarrow> VmmProcessCreateEntry_alloc cfg pid ppid state dtb dtbUserOpt name userOnly pbEPROCESS s1)
   }"

definition VmmProcessCreateEntry ::
  "proc_config \<Rightarrow> bool \<Rightarrow> dword \<Rightarrow> dword \<Rightarrow> dword \<Rightarrow> qword \<Rightarrow> qword \<Rightarrow> byte list \<Rightarrow> bool \<Rightarrow> byte list
   \<Rightarrow> proc_state \<Rightarrow> (addr option \<times> proc_state) option" where
  "VmmProcessCreateEntry cfg fTotalRefresh pid ppid state dtb dtbUserOpt name userOnly pbEPROCESS s =
     (if state = 0 \<and> \<not> dtb_verify cfg dtb then Some (None, s)
      else
        (case pObCPROC s of
           None \<Rightarrow> Some (None, s)
         | Some ptOld \<Rightarrow> do {
             (pn, s1) \<leftarrow> VmmProcessCreateEntry_table cfg ptOld s;
             (case pn of
                None \<Rightarrow> Some (None, s1)
              | Some ptNew \<Rightarrow> do {
                  (dup, s2) \<leftarrow> VmmProcessGetEx cfg (Some ptNew) pid 0 s1;
                  if dup \<noteq> None then Some (None, s2)
                  else do {
                    (pr, s3) \<leftarrow> VmmProcessCreateEntry_prepare cfg fTotalRefresh pid ppid state dtb
                                  dtbUserOpt name userOnly pbEPROCESS ptOld s2;
                    (case pr of
                       None \<Rightarrow> Some (None, s3)
                     | Some pProcess \<Rightarrow> VmmProcessCreateEntry_install cfg ptNew pid pProcess s3)
                  }
                })
           }))"

definition VmmProcessCreateFinish :: "proc_state \<Rightarrow> proc_state option" where
  "VmmProcessCreateFinish s =
     (case pObCPROC s of
        None \<Rightarrow> Some s
      | Some ptOld \<Rightarrow> do {
          tOld \<leftarrow> tables s ptOld;
          (case pObCNewPROC tOld of
             None \<Rightarrow> Some s
           | Some ptNew \<Rightarrow> Some (s\<lparr>pObCPROC := Some ptNew\<rparr>))
        })"

definition VmmProcessTableCreateInitial :: "proc_config \<Rightarrow> proc_state \<Rightarrow> bool \<times> proc_state" where
  "VmmProcessTableCreateInitial cfg s =
     (if p_oom cfg (p_cAlloc s) then (False, s\<lparr>p_cAlloc := p_cAlloc s + 1\<rparr>)
      else (True, s\<lparr>p_cAlloc := p_cAlloc s + 1,
                    tables := (tables s)(p_cAlloc s := Some table_new),
                    pObCPROC := Some (p_cAlloc s)\<rparr>))"

subsection \<open>VmmProcessListPIDs\<close>

text \<open>
  The copy loop, entered with a process \<open>pProcess\<close> at slot \<open>iProcess\<close>: \<open>pPIDs\<close> is the
  buffer of the caller, \<open>i\<close> the number of PIDs written.  A write behind the end of the
  buffer does not return.
\<close>

partial_function (option) VmmProcessListPIDs_loop ::
  "proc_state \<Rightarrow> VMMOB_PROCESS_TABLE \<Rightarrow> bool \<Rightarrow> word16 \<Rightarrow> addr \<Rightarrow> dword list \<Rightarrow> nat \<Rightarrow> (dword list \<times> nat) option" where
  "VmmProcessListPIDs_loop s pt fShowTerminated iProcess pProcess pPIDs i = do {
     p \<leftarrow> procs s pProcess;
     (pPIDs1, i1) \<leftarrow>
       (if dwState p = 0 \<or> fShowTerminated
        then (if i < length pPIDs then Some (pPIDs[i := dwPID p], i + 1) else None)
        else Some (pPIDs, i));
     let iProcess1 = pt_iFLinkM pt (unat iProcess);
     (case pt_M pt (unat iProcess1) of
        None \<Rightarrow> Some (pPIDs1, i1)
      | Some pProcess1 \<Rightarrow>
          if iProcess1 = pt_iFLink pt then Some (pPIDs1, i1)
          else VmmProcessListPIDs_loop s pt fShowTerminated iProcess1 pProcess1 pPIDs1 i1)
   }"

text \<open>
  \<open>VmmProcessListPIDs\<close>: \<open>pPIDs\<close> is \<open>NULL\<close> or the buffer, \<open>cPIDs\<close> is \<open>*pcPIDs\<close> on entry; the
  result is the buffer and \<open>*pcPIDs\<close> on exit.
\<close>

definition VmmProcessListPIDs ::
  "proc_config \<Rightarrow> dword list option \<Rightarrow> nat \<Rightarrow> qword \<Rightarrow> proc_state \<Rightarrow> (dword list option \<times> nat) option" where
  "VmmProcessListPIDs cfg pPIDs cPIDs flags s = do {
     ptA \<leftarrow> pObCPROC s;
     pt \<leftarrow> tables s ptA;
     let fShowTerminated = BOOL_of ((flags OR pctx_flags cfg) AND VMM_FLAG_PROCESS_SHOW_TERMINATED cfg);
     (case pPIDs of
        None \<Rightarrow> Some (None, if fShowTerminated then pt_c pt else pt_cActive pt)
      | Some buf \<Rightarrow>
          if cPIDs < (if fShowTerminated then pt_c pt else pt_cActive pt) then Some (Some buf, 0)
          else
            (case pt_M pt (unat (pt_iFLink pt)) of
               None \<Rightarrow> Some (Some buf, 0)
             | Some pProcess \<Rightarrow> do {
                 (buf1, i) \<leftarrow> VmmProcessListPIDs_loop s pt fShowTerminated (pt_iFLink pt) pProcess buf 0;
                 Some (Some buf1, i)
               }))
   }"

subsection \<open>A refresh pass\<close>





subsection \<open>Invariants of the process tables\<close>

fun pt_chain :: "VMMOB_PROCESS_TABLE \<Rightarrow> word16 \<Rightarrow> nat list \<Rightarrow> bool" where
  "pt_chain pt i [] = (i = 0)"
| "pt_chain pt i (j # js) = (unat i = j \<and> pt_chain pt (pt_iFLinkM pt j) js)"

definition slot_proc :: "proc_state \<Rightarrow> VMMOB_PROCESS_TABLE \<Rightarrow> nat \<Rightarrow> VMM_PROCESS option" where
  "slot_proc s pt j = (case pt_M pt j of None \<Rightarrow> None | Some x \<Rightarrow> procs s x)"

definition shown :: "proc_state \<Rightarrow> VMMOB_PROCESS_TABLE \<Rightarrow> bool \<Rightarrow> nat \<Rightarrow> bool" where
  "shown s pt fShowTerminated j \<longleftrightarrow>
     (case slot_proc s pt j of None \<Rightarrow> False | Some p \<Rightarrow> dwState p = 0 \<or> fShowTerminated)"


definition pt_ok :: "proc_config \<Rightarrow> proc_state \<Rightarrow> VMMOB_PROCESS_TABLE \<Rightarrow> nat list \<Rightarrow> bool" where
  "pt_ok cfg s pt js \<longleftrightarrow>
     distinct js \<and> (\<forall>j\<in>set js. j < VMM_PROCESSTABLE_ENTRIES_MAX cfg) \<and>
     pt_chain pt (pt_iFLink pt) js \<and>
     (\<forall>j. pt_M pt j \<noteq> None \<longleftrightarrow> j \<in> set js) \<and>
     (\<forall>j\<in>set js. \<exists>p. slot_proc s pt j = Some p \<and>
        VmmProcessGetEx_probe cfg s pt (dwPID p) (unat (dwPID p) mod VMM_PROCESSTABLE_ENTRIES_MAX cfg)
          (unat (dwPID p) mod VMM_PROCESSTABLE_ENTRIES_MAX cfg) = Some (Some j)) \<and>
     pt_c pt = length js \<and>
     pt_cActive pt = length (filter (shown s pt False) js)"

definition pkey :: "VMM_PROCESS \<Rightarrow> dword \<times> dword \<times> addr option" where
  "pkey p = (dwPID p, dwState p, pObProcessCloneParent p)"

abbreviation "NN cfg \<equiv> VMM_PROCESSTABLE_ENTRIES_MAX cfg"

definition tok_rel :: "proc_state \<Rightarrow> proc_state \<Rightarrow> bool" where
  "tok_rel s s' \<longleftrightarrow> tables s' = tables s \<and> pObCPROC s' = pObCPROC s \<and> p_cAlloc s' = p_cAlloc s \<and>
     (\<forall>y. map_option pkey (procs s' y) = map_option pkey (procs s y))"



definition keys_kept :: "proc_state \<Rightarrow> proc_state \<Rightarrow> bool" where
  "keys_kept s s' \<longleftrightarrow> (\<forall>x. procs s x \<noteq> None \<longrightarrow> map_option pkey (procs s' x) = map_option pkey (procs s x))"


definition gen_ok :: "proc_config \<Rightarrow> proc_state \<Rightarrow> bool" where
  "gen_ok cfg s \<longleftrightarrow>
     (\<exists>ptOld tOld jsO. pObCPROC s = Some ptOld \<and> tables s ptOld = Some tOld \<and> pt_ok cfg s tOld jsO \<and>
        (\<forall>n. pObCNewPROC tOld = Some n \<longrightarrow>
           n \<noteq> ptOld \<and> (\<exists>tN jsN. tables s n = Some tN \<and> pt_ok cfg s tN jsN \<and> pObCNewPROC tN = None))) \<and>
     (\<forall>a\<ge>p_cAlloc s. procs s a = None \<and> tables s a = None)"




section \<open>Well-formed caches\<close>

text \<open>
  The bucket chain from \<open>p\<close>: the objects \<open>xs\<close>, linked by \<open>FLink\<close>, each live and with a
  count of at least 2 (one reference of the table and one of the region).
\<close>

fun bucket_chain :: "vmm_state \<Rightarrow> addr option \<Rightarrow> addr list \<Rightarrow> bool" where
  "bucket_chain s p [] \<longleftrightarrow> p = None"
| "bucket_chain s p (x # xs) \<longleftrightarrow>
     p = Some x \<and> (case heap s x of None \<Rightarrow> False | Some ob \<Rightarrow> 2 \<le> ob_count ob \<and> bucket_chain s (FLink ob) xs)"

text \<open>Every bucket of every region of the \<open>PHYS\<close> table holds such a chain.\<close>

definition chains_ok :: "vmm_state \<Rightarrow> bool" where
  "chains_ok s \<longleftrightarrow> (\<forall>iR iB. \<exists>xs. bucket_chain s (R_B (region s VMM_CACHE_TAG_PHYS iR) iB) xs)"






section \<open>Concrete inputs\<close>

text \<open>
  An instance of the parameters, with the values of the MemProcFS headers, a transport
  that fails every read and write, an allocator that never fails, a memory model that maps
  every virtual address to the same physical address, and no paged-memory decoder.
\<close>

definition cfg_example :: vmm_config where
  "cfg_example =
     \<lparr>VMM_CACHE2_REGIONS = 17, VMM_CACHE2_BUCKETS = 2039, VMM_CACHE2_MAX_ENTRIES = 0x8000,
      MEM_SCATTER_ADDR_INVALID = - 1,
      VMM_FLAG_NOCACHE = 1, VMM_FLAG_NOCACHEPUT = 0x100, VMM_FLAG_FORCECACHE_READ = 8,
      VMM_FLAG_ZEROPAD_ON_FAIL = 2, VMM_FLAG_NOPAGING = 0x10, VMM_FLAG_ALTADDR_VA_PTE = 0x80,
      ctx_flags = 0, dev_paMax = 0x100000000,
      lc_read = (\<lambda>_. None), lc_write = (\<lambda>_. False), oom = (\<lambda>_. False),
      VmmVirt2Phys = (\<lambda>p va pa. (True, va)), pfnPagedRead = None\<rparr>"

definition state_phys_init :: vmm_state where
  "state_phys_init = VmmCache2Initialize VMM_CACHE_TAG_PHYS state_zero"



text \<open>The state after a reservation on the fresh table, the descriptor filled in by the caller.\<close>

definition ob_example :: "bool \<Rightarrow> VMMOB_MEM" where
  "ob_example fValid =
     \<lparr>ob_count = 2, ob_tag = VMM_CACHE_TAG_PHYS,
      ob_h = \<lparr>m_f = fValid, m_qwA = 0x1000, m_pb = replicate 0x1000 0, m_cb = 0x1000, m_vStack = []\<rparr>,
      FLink = None, BLink = None, AgeFLink = None, AgeBLink = None\<rparr>"

definition state_reserved :: "bool \<Rightarrow> vmm_state" where
  "state_reserved fValid =
     state_phys_init
       \<lparr>heap := (\<lambda>_. None)(0 := Some (ob_example fValid)),
        Cache := (Cache state_phys_init)
          (VMM_CACHE_TAG_PHYS := (Cache state_phys_init VMM_CACHE_TAG_PHYS)
             \<lparr>t_ListHeadTotal := [0], t_cTotal := 1\<rparr>),
        cAlloc := 1\<rparr>"

text \<open>
  An instance of the parameters of the process table, with the values of the MemProcFS
  headers: 0x4000 slots, the clone bit 0x80000000, a page-table check that accepts every
  base, and an allocator that never fails.
\<close>

definition pcfg_example :: proc_config where
  "pcfg_example =
     \<lparr>VMM_PROCESSTABLE_ENTRIES_MAX = 0x4000,
      VMM_PID_PROCESS_CLONE_WITH_KERNELMEMORY = 0x80000000,
      VMM_FLAG_PROCESS_TOKEN = 0x40, VMM_FLAG_PROCESS_SHOW_TERMINATED = 4,
      pctx_flags = 0, dtb_verify = (\<lambda>_. True),
      token_ensure = (\<lambda>s pt x. \<lparr>fInitialized = True, fSID = False, qwLUID = 0, dwSessionId = 0\<rparr>),
      p_oom = (\<lambda>_. False)\<rparr>"

definition proc_state_zero :: proc_state where
  "proc_state_zero = \<lparr>procs = (\<lambda>_. None), tables = (\<lambda>_. None), pObCPROC = None, p_cAlloc = 0\<rparr>"

text \<open>
  A first refresh on the zeroed context: the initial table, two processes created one
  after the other, and the swap.
\<close>

definition create_two :: "dword \<Rightarrow> dword \<Rightarrow> proc_state option" where
  "create_two pid1 pid2 = do {
     let s0 = snd (VmmProcessTableCreateInitial pcfg_example proc_state_zero);
     (r1, s1) \<leftarrow> VmmProcessCreateEntry pcfg_example True pid1 0 0 0x1000 0 [] False [] s0;
     (r2, s2) \<leftarrow> VmmProcessCreateEntry pcfg_example True pid2 0 0 0x2000 0 [] False [] s1;
     VmmProcessCreateFinish s2
   }"

text \<open>The state that \<open>create_two 4 8\<close> returns, written out.\<close>

definition process_example :: "dword \<Rightarrow> qword \<Rightarrow> addr \<Rightarrow> VMM_PROCESS" where
  "process_example pid dtb a =
     \<lparr>dwPID = pid, dwPPID = 0, dwState = 0, paDTB = dtb, paDTB_UserOpt = 0, szName = [0],
      fUserOnly = False, fTlbSpiderDone = False, EPROCESS_pb = [],
      TOKEN = \<lparr>fInitialized = False, fSID = False, qwLUID = 0, dwSessionId = 0\<rparr>,
      pObPersistent = Some a, pObProcessCloneParent = None\<rparr>"

definition table_two :: VMMOB_PROCESS_TABLE where
  "table_two =
     \<lparr>pt_M = [4 \<mapsto> 2, 8 \<mapsto> 4], pt_iFLinkM = (\<lambda>_. 0)(4 := 0, 8 := 4), pt_iFLink = 8,
      pt_c = 2, pt_cActive = 2, pObCNewPROC = None\<rparr>"

definition proc_state_two :: proc_state where
  "proc_state_two =
     \<lparr>procs = [2 \<mapsto> process_example 4 0x1000 3, 4 \<mapsto> process_example 8 0x2000 5],
      tables = [0 \<mapsto> table_new\<lparr>pObCNewPROC := Some 1\<rparr>, 1 \<mapsto> table_two],
      pObCPROC = Some 1, p_cAlloc = 6\<rparr>"


text \<open>
  The \<open>PHYS\<close> cache with one entry, the page at 0x1000 filled with the byte 7, and a
  descriptor of the caller for one page, not yet read, its buffer filled with the byte 1.
\<close>

definition ob_cached :: VMMOB_MEM where
  "ob_cached =
     \<lparr>ob_count = 2, ob_tag = VMM_CACHE_TAG_PHYS,
      ob_h = \<lparr>m_f = True, m_qwA = 0x1000, m_pb = replicate 0x1000 7, m_cb = 0x1000, m_vStack = []\<rparr>,
      FLink = None, BLink = None, AgeFLink = None, AgeBLink = None\<rparr>"

definition state_cached :: vmm_state where
  "state_cached =
     state_phys_init
       \<lparr>heap := (\<lambda>_. None)(0 := Some ob_cached),
        Cache := (Cache state_phys_init)
          (VMM_CACHE_TAG_PHYS := (Cache state_phys_init VMM_CACHE_TAG_PHYS)
             \<lparr>t_R := (t_R (Cache state_phys_init VMM_CACHE_TAG_PHYS))
                 (1 := \<lparr>R_B = (\<lambda>_. None)(1 := Some 0), R_AgeFLink = Some 0, R_AgeBLink = Some 0, R_c = 1\<rparr>),
              t_ListHeadTotal := [0], t_cTotal := 1\<rparr>),
        cAlloc := 1\<rparr>"

definition mem_example :: "qword \<Rightarrow> MEM_SCATTER" where
  "mem_example a = \<lparr>m_f = False, m_qwA = a, m_pb = replicate 0x1000 1, m_cb = 0x1000, m_vStack = []\<rparr>"

section \<open>Reachable states of the process tables\<close>

text \<open>
  The states that the functions of vmm.c which write process objects produce from the
  zeroed context, with any arguments: \<open>VmmProcessTableCreateInitial\<close>,
  \<open>VmmProcessCreateEntry\<close>, \<open>VmmProcessCreateFinish\<close>, \<open>VmmProcessGetEx\<close> and
  \<open>VmmProcessClone\<close>.
\<close>

inductive reach :: "proc_config \<Rightarrow> proc_state \<Rightarrow> bool" for cfg where
  reach_zero: "reach cfg proc_state_zero"
| reach_initial: "reach cfg s \<Longrightarrow> reach cfg (snd (VmmProcessTableCreateInitial cfg s))"
| reach_entry: "reach cfg s \<Longrightarrow>
     VmmProcessCreateEntry cfg fTotalRefresh pid ppid state dtb dtbUserOpt name userOnly pbEPROCESS s = Some (r, s')
     \<Longrightarrow> reach cfg s'"
| reach_finish: "reach cfg s \<Longrightarrow> VmmProcessCreateFinish s = Some s' \<Longrightarrow> reach cfg s'"
| reach_get: "reach cfg s \<Longrightarrow> VmmProcessGetEx cfg pt pid flags s = Some (r, s') \<Longrightarrow> reach cfg s'"
| reach_clone: "reach cfg s \<Longrightarrow> VmmProcessClone cfg x s = Some (r, s') \<Longrightarrow> reach cfg s'"

text \<open>
  The view of the store that the clone invariant needs: for an address, whether it holds a
  process object and, if so, the back-reference \<open>pObProcessCloneParent\<close> of that object.
\<close>

definition par :: "proc_state \<Rightarrow> addr \<Rightarrow> addr option option" where
  "par s x = map_option pObProcessCloneParent (procs s x)"

text \<open>
  The clone invariant: the parent of a clone is a process object that is not a clone, and
  no object lies at an address that the allocator has not handed out.
\<close>

definition cl_ok :: "proc_state \<Rightarrow> bool" where
  "cl_ok s \<longleftrightarrow> (\<forall>x y. par s x = Some (Some y) \<longrightarrow> par s y = Some None) \<and>
     (\<forall>a\<ge>p_cAlloc s. par s a = None)"

section \<open>The reserve and return contract of the cache\<close>

lemmas cache_eval_defs =
  cfg_example_def state_phys_init_def state_zero_def table_zero_def VmmCache2Initialize_def
  VmmCacheTableGet_def VmmCacheReserve_def upd_table_def upd_region_def region_def
  Ob_Alloc_MEM_def ob_write_def ob_write_opt_def Ob_INCREF_def Ob_DECREF_def
  VmmCache_CallbackRefCount1_def VmmCacheReserveReturn_def
  VMM_CACHE2_GET_REGION_def VMM_CACHE2_GET_BUCKET_def

text \<open>
  \<open>state_reserved\<close> is the state a caller is in between \<open>VmmCacheReserve\<close> on the fresh
  table and \<open>VmmCacheReserveReturn\<close>: the fresh descriptor has the count 2.
\<close>

lemma VmmCacheReserve_fresh:
  "do { (p, s1) \<leftarrow> VmmCacheReserve cfg_example VMM_CACHE_TAG_PHYS state_phys_init;
        pOb \<leftarrow> p;
        s2 \<leftarrow> ob_write pOb (\<lambda>ob. ob\<lparr>ob_h := (ob_h ob)\<lparr>m_f := fValid, m_qwA := 0x1000\<rparr>\<rparr>) s1;
        Some (pOb, s2) }
   = Some (0, state_reserved fValid)"
  by (simp add: cache_eval_defs VmmCacheReserve_loop.simps state_reserved_def ob_example_def
      numeral_2_eq_2 [symmetric])




section \<open>Reads and writes of length zero\<close>

lemma VmmReadEx_zero: "VmmReadEx cfg pProcess qwA pb 0 flags s = Some (pb, 0, s)"
  by (simp add: VmmReadEx_def)

lemma VmmRead_zero: "VmmRead cfg pProcess qwA pb 0 s = Some (True, pb, s)"
  by (simp add: VmmRead_def VmmReadEx_def)

lemma cMEMs_of_zero_unaligned:
  assumes "qwA AND 0xfff \<noteq> 0"
  shows "cMEMs_of qwA 0 = 1"
proof -
  have le: "qwA AND 0xfff \<le> 0xfff" by (rule word_and_le1)
  then have u: "unat (qwA AND 0xfff) \<le> 0xfff" by (simp add: word_le_nat_alt)
  have nz: "unat (qwA AND 0xfff) \<noteq> 0" using assms by (simp add: unat_eq_0)
  have "unat ((qwA AND 0xfff) + 0xfff) = unat (qwA AND 0xfff) + 0xfff"
    using u by (simp add: unat_word_ariths)
  then have "unat (drop_bit 12 ((qwA AND 0xfff) + 0xfff)) = (unat (qwA AND 0xfff) + 0xfff) div 4096"
    by (simp add: drop_bit_eq_div unat_div)
  also have "\<dots> = 1" using u nz by simp
  finally have "drop_bit 12 ((qwA AND 0xfff) + 0xfff) = 1"
    by (metis unat_1 word_unat_eq_iff)
  then show ?thesis by (simp add: cMEMs_of_def)
qed

text \<open>
  A write of no byte at an address that is not page aligned: \<open>cMEMs\<close> is 1, the loop
  prepares no descriptor, and the callee reads the \<open>NULL\<close> pointer \<open>ppMEMs[0]\<close>.
\<close>

lemma VmmWriteEx_zero_unaligned:
  assumes "qwA AND 0xfff \<noteq> 0" "\<not> oom cfg (cAlloc s)"
  shows "VmmWriteEx cfg pProcess qwA pb 0 s = None"
  using assms
  by (simp add: VmmWriteEx_def cMEMs_of_zero_unaligned LocalAlloc_def deref_all_def)

text \<open>
  At a page aligned address the physical write of no byte returns 0: the transport is
  called with an empty batch.
\<close>

lemma VmmWriteEx_zero_aligned_phys:
  assumes "qwA AND 0xfff = 0"
  shows "VmmWriteEx cfg None qwA pb 0 s =
      Some (0, if oom cfg (cAlloc s) then s\<lparr>cAlloc := cAlloc s + 1\<rparr>
               else s\<lparr>cAlloc := cAlloc s + 1, lc_writes := [] # lc_writes s\<rparr>)"
  using assms
  by (simp add: VmmWriteEx_def cMEMs_of_def LocalAlloc_def deref_all_def VmmWriteScatterPhysical_def
      LcWriteScatter_def)

text \<open>
  C8: the code at \<open>VmmWriteEx(NULL, 0x1001, pb, 0, &cbWrite)\<close>, and with a process.  The call
  does not return: one descriptor is counted, none is prepared.
\<close>

theorem VmmWriteEx_zero_length_unaligned:
  "VmmWriteEx cfg_example None 0x1001 [] 0 state_phys_init = None \<and>
   VmmWrite cfg_example None 0x1001 [] 0 state_phys_init = None \<and>
   VmmWriteEx cfg_example (Some 0) 0x1001 [] 0 state_phys_init = None \<and>
   cMEMs_of 0x1001 0 = 1 \<and> VmmWriteEx_prepare 0x1001 [] 0 0 = []"
  by (simp add: VmmWriteEx_def VmmWrite_def cMEMs_of_def LocalAlloc_def deref_all_def cfg_example_def
      state_phys_init_def state_zero_def VmmCache2Initialize_def VmmCacheTableGet_def upd_table_def
      drop_bit_eq_div)

section \<open>File-style accesses of length zero\<close>

lemma VmmAsFile_cb_zero: "VmmAsFile_cb qwMemoryAddress cbMemorySize 0 cbOffset = 0"
  by (simp add: VmmAsFile_cb_def)

text \<open>
  C10: when the offset is at or behind the end of the object, when the requested length is
  0, and whenever the clamped length \<open>VmmAsFile_cb\<close> is 0, \<open>VmmReadAsFile\<close> and
  \<open>VmmWriteAsFile\<close> return \<open>STATUS_END_OF_FILE\<close> with the byte count 0; the buffer and the
  state, with the record of the batches of the transport, are unchanged.
\<close>

theorem VmmAsFile_zero_length:
  assumes "cbMemorySize \<le> cbOffset \<or> cb = 0 \<or> VmmAsFile_cb qwMemoryAddress cbMemorySize cb cbOffset = 0"
  shows "VmmReadAsFile cfg pProcess qwMemoryAddress cbMemorySize pb cb cbOffset s
           = Some (STATUS_END_OF_FILE, pb, 0, s) \<and>
         VmmWriteAsFile cfg pProcess qwMemoryAddress cbMemorySize pb cb cbOffset s
           = Some (STATUS_END_OF_FILE, 0, s)"
  using assms
  by (auto simp: VmmReadAsFile_def VmmWriteAsFile_def Let_def VmmAsFile_cb_zero)

theorem VmmAsFile_zero_length_witness:
  "VmmReadAsFile cfg_example None 0x1000 0x100 [1, 2] 0 0x10 state_phys_init
     = Some (STATUS_END_OF_FILE, [1, 2], 0, state_phys_init) \<and>
   VmmWriteAsFile cfg_example None 0x1000 0x100 [1, 2] 0 0x10 state_phys_init
     = Some (STATUS_END_OF_FILE, 0, state_phys_init) \<and>
   VmmReadAsFile cfg_example None 0x1000 0x100 [1, 2] 2 0x100 state_phys_init
     = Some (STATUS_END_OF_FILE, [1, 2], 0, state_phys_init) \<and>
   VmmWriteAsFile cfg_example None 0x1000 0x100 [1, 2] 2 0x100 state_phys_init
     = Some (STATUS_END_OF_FILE, 0, state_phys_init)"
  using VmmAsFile_zero_length [of "0x100" "0x10" 0 "0x1000" cfg_example None "[1, 2]" state_phys_init]
        VmmAsFile_zero_length [of "0x100" "0x100" 2 "0x1000" cfg_example None "[1, 2]" state_phys_init]
  by simp

section \<open>The process tables\<close>


lemma tok_lock_simps [simp]:
  "tables (VmmProcess_TokenTryEnsureLock cfg pt x s) = tables s"
  "pObCPROC (VmmProcess_TokenTryEnsureLock cfg pt x s) = pObCPROC s"
  "p_cAlloc (VmmProcess_TokenTryEnsureLock cfg pt x s) = p_cAlloc s"
  "map_option pkey (procs (VmmProcess_TokenTryEnsureLock cfg pt x s) y) = map_option pkey (procs s y)"
  "procs (VmmProcess_TokenTryEnsureLock cfg pt x s) y = None \<longleftrightarrow> procs s y = None"
  by (auto simp: VmmProcess_TokenTryEnsureLock_def pkey_def [abs_def] split: option.splits
      simp: option.map_comp o_def)

declare VmmProcessGetEx_probe.simps [simp del]

declare VmmProcessCreateEntry_slot.simps [simp del]














lemma tok_rel_refl [simp]: "tok_rel s s" by (simp add: tok_rel_def)

lemma tok_rel_trans: "tok_rel s s1 \<Longrightarrow> tok_rel s1 s2 \<Longrightarrow> tok_rel s s2"
  by (simp add: tok_rel_def)

lemma tok_rel_lock [simp]: "tok_rel s (VmmProcess_TokenTryEnsureLock cfg pt x s)"
  by (simp add: tok_rel_def)


lemma pkey_None: "map_option pkey a = map_option pkey b \<Longrightarrow> (a = None) = (b = None)"
  by (cases a; cases b) auto













lemma keys_kept_refl [simp]: "keys_kept s s" by (simp add: keys_kept_def)
























section \<open>Enumeration of the process table\<close>

lemmas proc_eval_defs =
  pcfg_example_def proc_state_zero_def create_two_def VmmProcessTableCreateInitial_def
  VmmProcessCreateEntry_def VmmProcessCreateEntry_table_def VmmProcessCreateEntry_prepare_def
  VmmProcessCreateEntry_alloc_def VmmProcessCreateEntry_install_def VmmProcessCreateFinish_def
  VmmProcessGetEx_def VmmProcessGetEx_pt_def VmmProcessGetEx_lookup_def
  VmmProcess_TokenTryEnsureLock_def VmmProcessClone_def
  VmmProcessGetEx_probe.simps VmmProcessCreateEntry_slot.simps slot_next_def table_new_def BOOL_of_def
  VmmProcessListPIDs_def

lemma create_two_4_8: "create_two 4 8 = Some proc_state_two"
  by (simp add: proc_eval_defs proc_state_two_def table_two_def process_example_def
      numeral_2_eq_2 [symmetric])







text \<open>
  The chain ends at a link of 0, which is also the number of the first slot.  When slot 0
  holds a process that is not the head of the chain (here the process 0x4000, created
  before the process 4), the walk goes on from the end of the chain into slot 0 and round
  again, and writes behind the end of the buffer.
\<close>

lemma VmmProcessListPIDs_slot0_overrun: "do { s \<leftarrow> create_two 0x4000 4; VmmProcessListPIDs pcfg_example (Some [0, 0]) 2 0 s } = None"
  unfolding VmmProcessListPIDs_def
  apply (subst VmmProcessListPIDs_loop.simps)
  apply (subst VmmProcessListPIDs_loop.simps)
  apply (subst VmmProcessListPIDs_loop.simps)
  apply (simp add: proc_eval_defs)
  done



section \<open>Visibility of the processes of a refresh\<close>


lemma gen_ok_initial:
  assumes "\<not> p_oom cfg (p_cAlloc s)" "\<forall>a\<ge>p_cAlloc s. procs s a = None \<and> tables s a = None"
  shows "gen_ok cfg (snd (VmmProcessTableCreateInitial cfg s))"
  using assms
  by (auto simp: gen_ok_def VmmProcessTableCreateInitial_def pt_ok_def table_new_def shown_def)




section \<open>Clones of processes\<close>

lemma tok_par:
  "par (VmmProcess_TokenTryEnsureLock cfg pt x s) = par s \<and>
   p_cAlloc (VmmProcess_TokenTryEnsureLock cfg pt x s) = p_cAlloc s"
  by (auto simp: VmmProcess_TokenTryEnsureLock_def par_def fun_eq_iff option.map_comp comp_def
      split: option.splits)

lemma lookup_par:
  assumes "VmmProcessGetEx_lookup cfg ptA pid flags s = Some (r, s')"
  shows "par s' = par s \<and> p_cAlloc s' = p_cAlloc s"
  using assms tok_par [of cfg ptA _ s]
  by (auto simp: VmmProcessGetEx_lookup_def Let_def split: bind_splits option.splits if_splits)

lemma cl_ok_cong: "cl_ok s \<Longrightarrow> par s' = par s \<Longrightarrow> p_cAlloc s \<le> p_cAlloc s' \<Longrightarrow> cl_ok s'"
  by (simp add: cl_ok_def)

lemma Clone_ok:
  assumes c: "VmmProcessClone cfg x s = Some (r, s')" and ok: "cl_ok s"
  shows "cl_ok s' \<and> p_cAlloc s \<le> p_cAlloc s' \<and>
         (\<forall>c. r = Some c \<longrightarrow> par s' c = Some (Some x) \<and> par s x = Some None)"
proof -
  from c obtain p where p: "procs s x = Some p" by (auto simp: VmmProcessClone_def split: bind_splits)
  show ?thesis
  proof (cases "pObProcessCloneParent p \<noteq> None \<or> p_oom cfg (p_cAlloc s)")
    case True
    then have "par s' = par s" "p_cAlloc s \<le> p_cAlloc s'" "r = None"
      using c p by (auto simp: VmmProcessClone_def par_def split: if_splits)
    then show ?thesis using cl_ok_cong [OF ok] by simp
  next
    case False
    then have r: "r = Some (p_cAlloc s)"
      and s': "s' = s\<lparr>p_cAlloc := p_cAlloc s + 1,
                  procs := (procs s)(p_cAlloc s := Some (p\<lparr>pObProcessCloneParent := Some x\<rparr>))\<rparr>"
      using c p by (auto simp: VmmProcessClone_def)
    have px: "par s x = Some None" using p False by (simp add: par_def)
    have fresh: "\<forall>a\<ge>p_cAlloc s. par s a = None" using ok by (simp add: cl_ok_def)
    have xn: "x \<noteq> p_cAlloc s" using px fresh by auto
    have P: "par s' = (par s)(p_cAlloc s := Some (Some x))"
      unfolding s' by (auto simp: par_def fun_eq_iff)
    have flat: "\<forall>a y. par s a = Some (Some y) \<longrightarrow> par s y = Some None" using ok by (simp add: cl_ok_def)
    have "cl_ok s'"
      unfolding cl_ok_def P
    proof (intro conjI allI impI)
      fix a y assume h: "((par s)(p_cAlloc s := Some (Some x))) a = Some (Some y)"
      show "((par s)(p_cAlloc s := Some (Some x))) y = Some None"
      proof (cases "a = p_cAlloc s")
        case True
        then have "y = x" using h by simp
        then show ?thesis using px xn by simp
      next
        case False
        then have "par s a = Some (Some y)" using h by simp
        then have y: "par s y = Some None" using flat by blast
        then have "y \<noteq> p_cAlloc s" using fresh by auto
        then show ?thesis using y by simp
      qed
    next
      fix a assume "p_cAlloc s' \<le> a"
      then have "p_cAlloc s < a" unfolding s' by simp
      then show "((par s)(p_cAlloc s := Some (Some x))) a = None" using fresh by simp
    qed
    moreover have "p_cAlloc s \<le> p_cAlloc s'" unfolding s' by simp
    moreover have "par s' (p_cAlloc s) = Some (Some x)" unfolding P by simp
    ultimately show ?thesis using r px by simp
  qed
qed

lemma GetEx_pt_ok:
  assumes g: "VmmProcessGetEx_pt cfg ptA pid flags s = Some (r, s')" and ok: "cl_ok s"
  shows "cl_ok s' \<and> p_cAlloc s \<le> p_cAlloc s'"
proof -
  from g obtain r1 s1 where l1: "VmmProcessGetEx_lookup cfg ptA pid flags s = Some (r1, s1)"
    by (auto simp: VmmProcessGetEx_pt_def split: bind_splits)
  from lookup_par [OF l1] have e1: "par s1 = par s" "p_cAlloc s1 = p_cAlloc s" by simp_all
  have ok1: "cl_ok s1" using cl_ok_cong [OF ok e1(1)] e1(2) by simp
  show ?thesis
  proof (cases "r1 = None \<and> pid AND VMM_PID_PROCESS_CLONE_WITH_KERNELMEMORY cfg \<noteq> 0")
    case False
    then have "s' = s1" using g l1 by (auto simp: VmmProcessGetEx_pt_def split: option.splits if_splits)
    then show ?thesis using ok1 e1 by simp
  next
    case True
    then obtain r2 s2 where l2: "VmmProcessGetEx_lookup cfg ptA
        (pid AND NOT (VMM_PID_PROCESS_CLONE_WITH_KERNELMEMORY cfg)) flags s1 = Some (r2, s2)"
      using g l1 by (auto simp: VmmProcessGetEx_pt_def split: bind_splits)
    from lookup_par [OF l2] have e2: "par s2 = par s1" "p_cAlloc s2 = p_cAlloc s1" by simp_all
    have ok2: "cl_ok s2" using cl_ok_cong [OF ok1 e2(1)] e2(2) by simp
    show ?thesis
    proof (cases r2)
      case None
      then have "s' = s2" using g l1 l2 True by (auto simp: VmmProcessGetEx_pt_def)
      then show ?thesis using ok2 e1 e2 by simp
    next
      case (Some x)
      then obtain c s3 where c: "VmmProcessClone cfg x s2 = Some (c, s3)"
        using g l1 l2 True by (auto simp: VmmProcessGetEx_pt_def split: bind_splits)
      from Clone_ok [OF c ok2] have ok3: "cl_ok s3" "p_cAlloc s2 \<le> p_cAlloc s3" by simp_all
      show ?thesis
      proof (cases c)
        case None
        then have "s' = s3" using g l1 l2 True Some c by (auto simp: VmmProcessGetEx_pt_def)
        then show ?thesis using ok3 e1 e2 by simp
      next
        case (Some y)
        then obtain q where q: "procs s3 y = Some q"
          and s': "s' = s3\<lparr>procs := (procs s3)(y := Some (q\<lparr>fUserOnly := False\<rparr>))\<rparr>"
          using g l1 l2 True \<open>r2 = Some x\<close> c by (auto simp: VmmProcessGetEx_pt_def split: bind_splits)
        have "par s' = par s3" unfolding s' using q by (auto simp: par_def fun_eq_iff)
        moreover have "p_cAlloc s' = p_cAlloc s3" unfolding s' by simp
        ultimately show ?thesis using cl_ok_cong [OF ok3(1), of s'] ok3(2) e1 e2 by simp
      qed
    qed
  qed
qed

lemma GetEx_ok:
  assumes g: "VmmProcessGetEx cfg pt pid flags s = Some (r, s')" and ok: "cl_ok s"
  shows "cl_ok s' \<and> p_cAlloc s \<le> p_cAlloc s'"
  using g GetEx_pt_ok [OF _ ok]
  by (auto simp: VmmProcessGetEx_def split: option.splits)

lemma table_okc:
  assumes "VmmProcessCreateEntry_table cfg ptOld s = Some (r, s')" and ok: "cl_ok s"
  shows "cl_ok s' \<and> p_cAlloc s \<le> p_cAlloc s'"
proof -
  have "par s' = par s \<and> p_cAlloc s \<le> p_cAlloc s'"
    using assms(1)
    by (auto simp: VmmProcessCreateEntry_table_def par_def split: bind_splits option.splits if_splits)
  then show ?thesis using cl_ok_cong [OF ok] by simp
qed

lemma install_okc:
  assumes "VmmProcessCreateEntry_install cfg ptNew pid x s = Some (r, s')" and ok: "cl_ok s"
  shows "cl_ok s' \<and> p_cAlloc s \<le> p_cAlloc s'"
proof -
  have "par s' = par s \<and> p_cAlloc s \<le> p_cAlloc s'"
    using assms(1)
    by (auto simp: VmmProcessCreateEntry_install_def Let_def par_def split: bind_splits option.splits)
  then show ?thesis using cl_ok_cong [OF ok] by simp
qed

lemma cl_ok_bump: "cl_ok s \<Longrightarrow> cl_ok (s\<lparr>p_cAlloc := p_cAlloc s + n\<rparr>)"
  by (simp add: cl_ok_def par_def)

lemma cl_ok_new:
  assumes ok: "cl_ok s" and a: "a < n" "p_cAlloc s \<le> n" and p: "pObProcessCloneParent p = None"
  shows "cl_ok (s\<lparr>p_cAlloc := n, procs := (procs s)(a := Some p)\<rparr>)"
proof -
  let ?s = "s\<lparr>p_cAlloc := n, procs := (procs s)(a := Some p)\<rparr>"
  have P: "par ?s = (par s)(a := Some None)" using p by (auto simp: par_def fun_eq_iff)
  have flat: "\<forall>a y. par s a = Some (Some y) \<longrightarrow> par s y = Some None" using ok by (simp add: cl_ok_def)
  have fresh: "\<forall>a\<ge>p_cAlloc s. par s a = None" using ok by (simp add: cl_ok_def)
  show ?thesis
    unfolding cl_ok_def P
  proof (intro conjI allI impI)
    fix b y assume h: "((par s)(a := Some None)) b = Some (Some y)"
    then have "b \<noteq> a" by (auto split: if_splits)
    then have "par s b = Some (Some y)" using h by simp
    then have "par s y = Some None" using flat by blast
    then show "((par s)(a := Some None)) y = Some None" by simp
  next
    fix b assume "p_cAlloc ?s \<le> b"
    then have "n \<le> b" by simp
    then show "((par s)(a := Some None)) b = None" using a fresh by simp
  qed
qed

lemma alloc_okc:
  assumes al: "VmmProcessCreateEntry_alloc cfg pid ppid state dtb dtbU name uo pbE s = Some (r, s')"
    and ok: "cl_ok s"
  shows "cl_ok s' \<and> p_cAlloc s \<le> p_cAlloc s'"
proof (cases "p_oom cfg (p_cAlloc s)")
  case True
  then have "s' = s\<lparr>p_cAlloc := p_cAlloc s + 1\<rparr>" using al by (simp add: VmmProcessCreateEntry_alloc_def)
  then show ?thesis using cl_ok_bump [OF ok, of 1] by simp
next
  case False
  then obtain old s1 where g: "VmmProcessGetEx cfg None pid 0 (s\<lparr>p_cAlloc := p_cAlloc s + 1\<rparr>) = Some (old, s1)"
    using al by (auto simp: VmmProcessCreateEntry_alloc_def Let_def split: bind_splits)
  from GetEx_ok [OF g cl_ok_bump [OF ok]] have ok1: "cl_ok s1" and le: "p_cAlloc s + 1 \<le> p_cAlloc s1"
    by simp_all
  from al False g obtain n p where s': "s' = s1\<lparr>p_cAlloc := n, procs := (procs s1)(p_cAlloc s := Some p)\<rparr>"
    and n: "p_cAlloc s1 \<le> n" and p: "pObProcessCloneParent p = None"
    by (auto simp: VmmProcessCreateEntry_alloc_def Let_def split: bind_splits)
  have "cl_ok s'" unfolding s' by (rule cl_ok_new [OF ok1 _ n p]) (use le n in simp)
  then show ?thesis using le n s' by simp
qed

lemma prepare_okc:
  assumes pr: "VmmProcessCreateEntry_prepare cfg fTR pid ppid state dtb dtbU name uo pbE ptOld s = Some (r, s')"
    and ok: "cl_ok s"
  shows "cl_ok s' \<and> p_cAlloc s \<le> p_cAlloc s'"
proof -
  from pr obtain old s1 where
    g: "(if \<not> fTR then VmmProcessGetEx cfg (Some ptOld) pid 0 s else Some (None, s)) = Some (old, s1)"
    and rest: "(case old of Some x \<Rightarrow> Some (Some x, s1)
                | None \<Rightarrow> VmmProcessCreateEntry_alloc cfg pid ppid state dtb dtbU name uo pbE s1) = Some (r, s')"
    by (auto simp: VmmProcessCreateEntry_prepare_def split: bind_splits)
  have ok1: "cl_ok s1 \<and> p_cAlloc s \<le> p_cAlloc s1"
    using g GetEx_ok [OF _ ok] ok by (auto split: if_splits)
  show ?thesis
  proof (cases old)
    case None
    then show ?thesis using rest alloc_okc [of cfg pid ppid state dtb dtbU name uo pbE s1 r s'] ok1 by auto
  next
    case (Some x)
    then show ?thesis using rest ok1 by simp
  qed
qed

lemma CreateEntry_okc:
  assumes ce: "VmmProcessCreateEntry cfg fTR pid ppid state dtb dtbU name uo pbE s = Some (r, s')"
    and ok: "cl_ok s"
  shows "cl_ok s'"
proof (cases "(state = 0 \<and> \<not> dtb_verify cfg dtb) \<or> pObCPROC s = None")
  case True
  then have "s' = s" using ce by (auto simp: VmmProcessCreateEntry_def split: if_splits)
  then show ?thesis using ok by simp
next
  case False
  then obtain ptOld where c: "pObCPROC s = Some ptOld" by auto
  from ce False c obtain pn s1 where t: "VmmProcessCreateEntry_table cfg ptOld s = Some (pn, s1)"
    by (auto simp: VmmProcessCreateEntry_def split: bind_splits)
  from table_okc [OF t ok] have ok1: "cl_ok s1" by simp
  show ?thesis
  proof (cases pn)
    case None
    then show ?thesis using ce False c t ok1 by (auto simp: VmmProcessCreateEntry_def)
  next
    case (Some ptNew)
    from ce False c t Some obtain dup s2 where g: "VmmProcessGetEx cfg (Some ptNew) pid 0 s1 = Some (dup, s2)"
      by (auto simp: VmmProcessCreateEntry_def split: bind_splits)
    from GetEx_ok [OF g ok1] have ok2: "cl_ok s2" by simp
    show ?thesis
    proof (cases dup)
      case (Some d)
      then show ?thesis using ce False c t \<open>pn = Some ptNew\<close> g ok2 by (auto simp: VmmProcessCreateEntry_def)
    next
      case None
      from ce False c t \<open>pn = Some ptNew\<close> g None obtain pr s3 where
        p: "VmmProcessCreateEntry_prepare cfg fTR pid ppid state dtb dtbU name uo pbE ptOld s2 = Some (pr, s3)"
        by (auto simp: VmmProcessCreateEntry_def split: bind_splits)
      from prepare_okc [OF p ok2] have ok3: "cl_ok s3" by simp
      show ?thesis
      proof (cases pr)
        case None
        then show ?thesis using ce False c t \<open>pn = Some ptNew\<close> g \<open>dup = None\<close> p ok3
          by (auto simp: VmmProcessCreateEntry_def)
      next
        case (Some x)
        then have "VmmProcessCreateEntry_install cfg ptNew pid x s3 = Some (r, s')"
          using ce False c t \<open>pn = Some ptNew\<close> g \<open>dup = None\<close> p
          by (auto simp: VmmProcessCreateEntry_def)
        from install_okc [OF this ok3] show ?thesis by simp
      qed
    qed
  qed
qed

lemma reach_cl_ok: "reach cfg s \<Longrightarrow> cl_ok s"
proof (induction rule: reach.induct)
  case reach_zero
  then show ?case by (simp add: cl_ok_def par_def proc_state_zero_def)
next
  case (reach_initial s)
  have "par (snd (VmmProcessTableCreateInitial cfg s)) = par s"
    "p_cAlloc s \<le> p_cAlloc (snd (VmmProcessTableCreateInitial cfg s))"
    by (simp_all add: VmmProcessTableCreateInitial_def par_def fun_eq_iff)
  then show ?case using cl_ok_cong [OF reach_initial.IH] by simp
next
  case (reach_entry s fTotalRefresh pid ppid state dtb dtbUserOpt name userOnly pbEPROCESS r s')
  then show ?case using CreateEntry_okc by blast
next
  case (reach_finish s s')
  have "par s' = par s" "p_cAlloc s \<le> p_cAlloc s'"
    using reach_finish.hyps(2)
    by (auto simp: VmmProcessCreateFinish_def par_def split: option.splits bind_splits)
  then show ?case using cl_ok_cong [OF reach_finish.IH] by simp
next
  case (reach_get s pt pid flags r s')
  then show ?case using GetEx_ok by blast
next
  case (reach_clone s x r s')
  then show ?case using Clone_ok by blast
qed

text \<open>
  C9.  In every reachable state, a process object \<open>x\<close> whose back-reference
  \<open>pObProcessCloneParent\<close> is set, to \<open>y\<close>, is refused by \<open>VmmProcessClone\<close>, which returns
  \<open>NULL\<close> and changes nothing, and \<open>y\<close> is a process object whose back-reference is not
  set: a clone chain has depth at most one.
\<close>

theorem VmmProcessClone_never_nested:
  assumes r: "reach cfg s" and p: "procs s x = Some p" and c: "pObProcessCloneParent p = Some y"
  shows "VmmProcessClone cfg x s = Some (None, s) \<and>
         (\<exists>q. procs s y = Some q \<and> pObProcessCloneParent q = None)"
proof -
  have "par s x = Some (Some y)" using p c by (simp add: par_def)
  moreover have "cl_ok s" by (rule reach_cl_ok [OF r])
  ultimately have "par s y = Some None" unfolding cl_ok_def by blast
  then have "\<exists>q. procs s y = Some q \<and> pObProcessCloneParent q = None" by (auto simp: par_def)
  moreover have "VmmProcessClone cfg x s = Some (None, s)" using p c by (simp add: VmmProcessClone_def)
  ultimately show ?thesis by simp
qed

lemma create_two_reach:
  assumes "create_two pid1 pid2 = Some s"
  shows "reach pcfg_example s"
proof -
  let ?s0 = "snd (VmmProcessTableCreateInitial pcfg_example proc_state_zero)"
  from assms obtain r1 s1 r2 s2 where
    e1: "VmmProcessCreateEntry pcfg_example True pid1 0 0 0x1000 0 [] False [] ?s0 = Some (r1, s1)"
    and e2: "VmmProcessCreateEntry pcfg_example True pid2 0 0 0x2000 0 [] False [] s1 = Some (r2, s2)"
    and e3: "VmmProcessCreateFinish s2 = Some s"
    by (auto simp: create_two_def Let_def split: bind_splits)
  have "reach pcfg_example ?s0" by (rule reach_initial [OF reach_zero])
  then have "reach pcfg_example s1" using e1 by (rule reach_entry)
  then have "reach pcfg_example s2" using e2 by (rule reach_entry)
  then show ?thesis using e3 by (rule reach_finish)
qed

theorem VmmProcessClone_never_nested_witness:
  "\<exists>s c. VmmProcessGetEx pcfg_example None 0x80000004 0 proc_state_two = Some (Some 6, s) \<and>
     procs s 6 = Some c \<and> pObProcessCloneParent c = Some 2 \<and>
     VmmProcessClone pcfg_example 6 s = Some (None, s) \<and>
     (\<exists>q. procs s 2 = Some q \<and> pObProcessCloneParent q = None)"
proof -
  obtain s c where g: "VmmProcessGetEx pcfg_example None 0x80000004 0 proc_state_two = Some (Some 6, s)"
    and c: "procs s 6 = Some c" "pObProcessCloneParent c = Some 2"
    by (simp add: proc_eval_defs proc_state_two_def table_two_def process_example_def)
  have "reach pcfg_example proc_state_two" by (rule create_two_reach [OF create_two_4_8])
  then have r: "reach pcfg_example s" using g by (rule reach_get)
  from VmmProcessClone_never_nested [OF r c] g c show ?thesis by blast
qed

section \<open>Cache-only reads\<close>




lemma bucket_chain_heap: "heap s' = heap s \<Longrightarrow> bucket_chain s' p xs = bucket_chain s p xs"
  by (induction xs arbitrary: p) (auto split: option.splits)


lemma stat_simps [simp]:
  "heap (s\<lparr>stat := st\<rparr>) = heap s" "Cache (s\<lparr>stat := st\<rparr>) = Cache s"
  "region (s\<lparr>stat := st\<rparr>) = region s"
  by (simp_all add: region_def fun_eq_iff)

lemma chains_ok_stat [simp]: "chains_ok (s\<lparr>stat := st\<rparr>) = chains_ok s"
  by (simp add: chains_ok_def bucket_chain_heap [of "s\<lparr>stat := st\<rparr>" s])








lemma state_cached_reached:
  "do { (p, s1) \<leftarrow> VmmCacheReserve cfg_example VMM_CACHE_TAG_PHYS state_phys_init;
        pOb \<leftarrow> p;
        s2 \<leftarrow> ob_write pOb (\<lambda>ob. ob\<lparr>ob_h := (ob_h ob)\<lparr>m_f := True, m_qwA := 0x1000,
                                      m_pb := replicate 0x1000 7\<rparr>\<rparr>) s1;
        VmmCacheReserveReturn cfg_example (Some pOb) s2 }
   = Some state_cached"
  by (simp add: cache_eval_defs VmmCacheReserve_loop.simps state_cached_def ob_cached_def
      numeral_2_eq_2 [symmetric] drop_bit_eq_div fun_eq_iff)





lemma mem_example_simps [simp]:
  "m_f (mem_example a) = False" "m_qwA (mem_example a) = a" "m_cb (mem_example a) = 0x1000"
  "m_pb (mem_example a) = replicate 0x1000 1"
  by (simp_all add: mem_example_def)





end
